theory Spec2Isabelle
  imports Main "HOL-Library.AList"
begin

section \<open>Python values, objects and exceptions\<close>

text \<open>
  The program is dynamically typed Python: a field of an entity can hold any value
  (\<open>from_dict\<close> stores whatever the JSON document holds, \<open>update_route\<close> stores
  whatever the caller passes), the entities are mutable objects with identity, and the
  same object can sit in a list twice. The model therefore has a universal value type and
  a heap of objects. Values of the built-in types are by value; an instance of one of the
  four classes is a reference into the heap. Floats and tuples are left out. A list held
  by an object is modelled by value inside that object, so two objects sharing one list
  object are not represented.
\<close>

type_synonym addr = nat

datatype pyval =
    PNone
  | PBool bool
  | PInt int
  | PStr string
  | PList "pyval list"
  | PDict "(string \<times> pyval) list"
  | PRef addr

datatype cls = Vehicle | Route | Passenger | Schedule

text \<open>An object: its class and its instance dictionary (\<open>__dict__\<close>), in insertion order.\<close>

record pyobj =
  cls_of :: cls
  attrs :: "(string \<times> pyval) list"

text \<open>The heap is append-only (nothing is ever freed); an address is an index.\<close>

type_synonym heap = "pyobj list"

datatype type_error =
    NotSubscriptable
  | BadIndex
  | NotIterable
  | NotCallable
  | NotSerializable
  | MultipleValues string
  | ClassAssign
  | DictAssign

datatype file_op = SaveJson | LoadJson

text \<open>
  Exceptions. The built-in ones carry what their message is made of. The four
  \<open>TransportError\<close> subclasses carry the id or class their message names.
  \<open>FileOperationError op e\<close> stands for the message of \<open>op\<close> followed by
  \<open>str(e)\<close>, as in \<^verbatim>\<open>FileOperationError(f"...: {str(e)}")\<close>.
\<close>

datatype exn =
    KeyError string
  | TypeError type_error
  | AttributeError string
  | RecursionError
  | FileNotFoundError string
  | JSONDecodeError string
  | TransportError int
  | VehicleNotFoundError int
  | InvalidDataError cls
  | RouteNotFoundError int
  | FileOperationError file_op exn

definition bindE :: "exn + 'a \<Rightarrow> ('a \<Rightarrow> exn + 'b) \<Rightarrow> exn + 'b" where
  "bindE m f = (case m of Inl e \<Rightarrow> Inl e | Inr x \<Rightarrow> f x)"

text \<open>A list comprehension \<^verbatim>\<open>[f(x) for x in xs]\<close>: left to right, the first exception wins.\<close>

fun mapE :: "('a \<Rightarrow> exn + 'b) \<Rightarrow> 'a list \<Rightarrow> exn + 'b list" where
  "mapE f [] = Inr []"
| "mapE f (x # xs) =
     (case f x of
        Inl e \<Rightarrow> Inl e
      | Inr y \<Rightarrow> (case mapE f xs of Inl e \<Rightarrow> Inl e | Inr ys \<Rightarrow> Inr (y # ys)))"

subsection \<open>The heap\<close>

definition heap_get :: "heap \<Rightarrow> addr \<Rightarrow> pyobj option" where
  "heap_get h a = (if a < length h then Some (h ! a) else None)"

definition alloc :: "heap \<Rightarrow> pyobj \<Rightarrow> heap \<times> addr" where
  "alloc h obj = (h @ [obj], length h)"

definition set_attr :: "heap \<Rightarrow> addr \<Rightarrow> string \<Rightarrow> pyval \<Rightarrow> heap" where
  "set_attr h a k v =
     (case heap_get h a of
        None \<Rightarrow> h
      | Some obj \<Rightarrow> h[a := obj\<lparr>attrs := AList.update k v (attrs obj)\<rparr>])"

subsection \<open>Built-in operations the program uses\<close>

text \<open>
  \<^verbatim>\<open>v.name\<close> for a name that no class defines (a data attribute): the instance
  dictionary decides. A value of a built-in type has none of the names the program reads.
\<close>

definition py_getattr :: "heap \<Rightarrow> pyval \<Rightarrow> string \<Rightarrow> exn + pyval" where
  "py_getattr h v name =
     (case v of
        PRef a \<Rightarrow>
          (case heap_get h a of
             None \<Rightarrow> Inl (AttributeError name)
           | Some obj \<Rightarrow>
               (case map_of (attrs obj) name of
                  None \<Rightarrow> Inl (AttributeError name)
                | Some x \<Rightarrow> Inr x))
      | _ \<Rightarrow> Inl (AttributeError name))"

text \<open>The names defined in each class body.\<close>

fun class_body :: "cls \<Rightarrow> string list" where
  "class_body Vehicle = [''__init__'', ''to_dict'', ''from_dict'']"
| "class_body Route = [''__init__'', ''add_vehicle'', ''remove_vehicle'', ''find_vehicle'',
     ''to_dict'', ''from_dict'', ''__str__'']"
| "class_body Passenger = [''__init__'', ''to_dict'', ''from_dict'', ''__str__'']"
| "class_body Schedule = [''__init__'', ''to_dict'', ''from_dict'', ''__str__'']"

text \<open>The names every instance of a plain class has besides (CPython 3.11).\<close>

definition object_attrs :: "string list" where
  "object_attrs = [''__class__'', ''__delattr__'', ''__dict__'', ''__dir__'', ''__doc__'',
     ''__eq__'', ''__format__'', ''__ge__'', ''__getattribute__'', ''__getstate__'',
     ''__gt__'', ''__hash__'', ''__init__'', ''__init_subclass__'', ''__le__'', ''__lt__'',
     ''__module__'', ''__ne__'', ''__new__'', ''__reduce__'', ''__reduce_ex__'',
     ''__repr__'', ''__setattr__'', ''__sizeof__'', ''__str__'', ''__subclasshook__'',
     ''__weakref__'']"

text \<open>
  \<^verbatim>\<open>v.name(...)\<close>: an entry of the instance dictionary shadows the method, and no
  value of the model is callable; otherwise the class must define the method.
\<close>

definition resolve_method :: "heap \<Rightarrow> pyval \<Rightarrow> string \<Rightarrow> exn + cls" where
  "resolve_method h v name =
     (case v of
        PRef a \<Rightarrow>
          (case heap_get h a of
             None \<Rightarrow> Inl (AttributeError name)
           | Some obj \<Rightarrow>
               if name \<in> fst ` set (attrs obj) then Inl (TypeError NotCallable)
               else if name \<in> set (class_body (cls_of obj)) then Inr (cls_of obj)
               else Inl (AttributeError name))
      | _ \<Rightarrow> Inl (AttributeError name))"

text \<open>What \<^verbatim>\<open>v.name(...)\<close> raises when the type of \<open>v\<close> has no method \<open>name\<close>.\<close>

definition method_missing :: "heap \<Rightarrow> pyval \<Rightarrow> string \<Rightarrow> exn" where
  "method_missing h v name =
     (case py_getattr h v name of Inl e \<Rightarrow> e | Inr _ \<Rightarrow> TypeError NotCallable)"

definition py_isinstance :: "heap \<Rightarrow> pyval \<Rightarrow> cls \<Rightarrow> bool" where
  "py_isinstance h v c =
     (case v of
        PRef a \<Rightarrow> (case heap_get h a of None \<Rightarrow> False | Some obj \<Rightarrow> cls_of obj = c)
      | _ \<Rightarrow> False)"

text \<open>\<^verbatim>\<open>data[key]\<close> with a string key.\<close>

fun py_getitem :: "pyval \<Rightarrow> string \<Rightarrow> exn + pyval" where
  "py_getitem (PDict d) k = (case map_of d k of None \<Rightarrow> Inl (KeyError k) | Some v \<Rightarrow> Inr v)"
| "py_getitem (PList xs) k = Inl (TypeError BadIndex)"
| "py_getitem (PStr s) k = Inl (TypeError BadIndex)"
| "py_getitem v k = Inl (TypeError NotSubscriptable)"

text \<open>\<^verbatim>\<open>data.get(key, default)\<close>.\<close>

definition py_get :: "heap \<Rightarrow> pyval \<Rightarrow> string \<Rightarrow> pyval \<Rightarrow> exn + pyval" where
  "py_get h data k dflt =
     (case data of
        PDict d \<Rightarrow> Inr (case map_of d k of None \<Rightarrow> dflt | Some v \<Rightarrow> v)
      | _ \<Rightarrow> Inl (method_missing h data ''get''))"

text \<open>\<^verbatim>\<open>for x in v\<close>: the elements of a list, the characters of a string, the keys of a dict.\<close>

fun py_iter :: "pyval \<Rightarrow> exn + pyval list" where
  "py_iter (PList xs) = Inr xs"
| "py_iter (PStr s) = Inr (map (\<lambda>c. PStr [c]) s)"
| "py_iter (PDict d) = Inr (map (\<lambda>kv. PStr (fst kv)) d)"
| "py_iter v = Inl (TypeError NotIterable)"

text \<open>\<^verbatim>\<open>v == n\<close> for an integer \<open>n\<close>; \<open>True\<close> is \<open>1\<close> and \<open>False\<close> is \<open>0\<close>.\<close>

fun py_eq_int :: "pyval \<Rightarrow> int \<Rightarrow> bool" where
  "py_eq_int (PInt m) n = (m = n)"
| "py_eq_int (PBool b) n = ((if b then 1 else 0) = n)"
| "py_eq_int v n = False"

text \<open>\<^verbatim>\<open>hasattr(v, name)\<close> for an instance of one of the four classes.\<close>

definition py_hasattr :: "heap \<Rightarrow> pyval \<Rightarrow> string \<Rightarrow> bool" where
  "py_hasattr h v name =
     (case v of
        PRef a \<Rightarrow>
          (case heap_get h a of
             None \<Rightarrow> False
           | Some obj \<Rightarrow>
               name \<in> fst ` set (attrs obj) \<or> name \<in> set (class_body (cls_of obj))
               \<or> name \<in> set object_attrs)
      | _ \<Rightarrow> False)"

text \<open>
  \<^verbatim>\<open>setattr(v, name, x)\<close> for an instance: \<open>__class__\<close> accepts only a class
  (no value of the model is one), \<open>__dict__\<close> only a dictionary, which then replaces the
  instance dictionary, \<open>__weakref__\<close> is not writable; any other name is stored in the
  instance dictionary.
\<close>

definition py_setattr :: "heap \<Rightarrow> pyval \<Rightarrow> string \<Rightarrow> pyval \<Rightarrow> exn + heap" where
  "py_setattr h v name x =
     (case v of
        PRef a \<Rightarrow>
          (case heap_get h a of
             None \<Rightarrow> Inl (AttributeError name)
           | Some obj \<Rightarrow>
               if name = ''__class__'' then Inl (TypeError ClassAssign)
               else if name = ''__dict__'' then
                 (case x of
                    PDict d \<Rightarrow> Inr (h[a := obj\<lparr>attrs := d\<rparr>])
                  | _ \<Rightarrow> Inl (TypeError DictAssign))
               else if name = ''__weakref__'' then Inl (AttributeError name)
               else Inr (set_attr h a name x))
      | _ \<Rightarrow> Inl (AttributeError name))"

text \<open>
  The three linear searches of the program have one shape:
  \<^verbatim>\<open>for x in xs: if x.<key> == n: return x\<close>, then \<open>None\<close>.
\<close>

fun scan_by_id :: "heap \<Rightarrow> string \<Rightarrow> int \<Rightarrow> pyval list \<Rightarrow> exn + pyval option" where
  "scan_by_id h key n [] = Inr None"
| "scan_by_id h key n (x # xs) =
     (case py_getattr h x key of
        Inl e \<Rightarrow> Inl e
      | Inr v \<Rightarrow> if py_eq_int v n then Inr (Some x) else scan_by_id h key n xs)"

section \<open>Entity classes\<close>

subsection \<open>Vehicle\<close>

definition Vehicle_init :: "pyval \<Rightarrow> pyval \<Rightarrow> pyval \<Rightarrow> pyval \<Rightarrow> pyobj" where
  "Vehicle_init vehicle_id model capacity vehicle_type =
     \<lparr>cls_of = Vehicle,
      attrs = [(''vehicle_id'', vehicle_id), (''model'', model), (''capacity'', capacity),
               (''type'', vehicle_type)]\<rparr>"

definition Vehicle_to_dict :: "heap \<Rightarrow> pyval \<Rightarrow> exn + pyval" where
  "Vehicle_to_dict h self =
     bindE (py_getattr h self ''vehicle_id'') (\<lambda>vid.
     bindE (py_getattr h self ''model'') (\<lambda>m.
     bindE (py_getattr h self ''capacity'') (\<lambda>c.
     bindE (py_getattr h self ''type'') (\<lambda>t.
       Inr (PDict [(''vehicle_id'', vid), (''model'', m), (''capacity'', c), (''type'', t)])))))"

definition Vehicle_from_dict :: "heap \<Rightarrow> pyval \<Rightarrow> exn + heap \<times> addr" where
  "Vehicle_from_dict h data =
     bindE (py_getitem data ''vehicle_id'') (\<lambda>vid.
     bindE (py_getitem data ''model'') (\<lambda>m.
     bindE (py_getitem data ''capacity'') (\<lambda>c.
     bindE (py_getitem data ''type'') (\<lambda>t.
       Inr (alloc h (Vehicle_init vid m c t))))))"

subsection \<open>Passenger\<close>

definition Passenger_init :: "pyval \<Rightarrow> pyval \<Rightarrow> pyval \<Rightarrow> pyobj" where
  "Passenger_init passenger_id name card_number =
     \<lparr>cls_of = Passenger,
      attrs = [(''passenger_id'', passenger_id), (''name'', name),
               (''card_number'', card_number)]\<rparr>"

definition Passenger_to_dict :: "heap \<Rightarrow> pyval \<Rightarrow> exn + pyval" where
  "Passenger_to_dict h self =
     bindE (py_getattr h self ''passenger_id'') (\<lambda>pid.
     bindE (py_getattr h self ''name'') (\<lambda>n.
     bindE (py_getattr h self ''card_number'') (\<lambda>c.
       Inr (PDict [(''passenger_id'', pid), (''name'', n), (''card_number'', c)]))))"

definition Passenger_from_dict :: "heap \<Rightarrow> pyval \<Rightarrow> exn + heap \<times> addr" where
  "Passenger_from_dict h data =
     bindE (py_getitem data ''passenger_id'') (\<lambda>pid.
     bindE (py_getitem data ''name'') (\<lambda>n.
     bindE (py_getitem data ''card_number'') (\<lambda>c.
       Inr (alloc h (Passenger_init pid n c)))))"

subsection \<open>Schedule\<close>

definition Schedule_init :: "pyval \<Rightarrow> pyval \<Rightarrow> pyval \<Rightarrow> pyval \<Rightarrow> pyobj" where
  "Schedule_init schedule_id route_id departure_time arrival_time =
     \<lparr>cls_of = Schedule,
      attrs = [(''schedule_id'', schedule_id), (''route_id'', route_id),
               (''departure_time'', departure_time), (''arrival_time'', arrival_time)]\<rparr>"

definition Schedule_to_dict :: "heap \<Rightarrow> pyval \<Rightarrow> exn + pyval" where
  "Schedule_to_dict h self =
     bindE (py_getattr h self ''schedule_id'') (\<lambda>sid.
     bindE (py_getattr h self ''route_id'') (\<lambda>rid.
     bindE (py_getattr h self ''departure_time'') (\<lambda>d.
     bindE (py_getattr h self ''arrival_time'') (\<lambda>a.
       Inr (PDict [(''schedule_id'', sid), (''route_id'', rid), (''departure_time'', d),
                   (''arrival_time'', a)])))))"

definition Schedule_from_dict :: "heap \<Rightarrow> pyval \<Rightarrow> exn + heap \<times> addr" where
  "Schedule_from_dict h data =
     bindE (py_getitem data ''schedule_id'') (\<lambda>sid.
     bindE (py_getitem data ''route_id'') (\<lambda>rid.
     bindE (py_getitem data ''departure_time'') (\<lambda>d.
     bindE (py_getitem data ''arrival_time'') (\<lambda>a.
       Inr (alloc h (Schedule_init sid rid d a))))))"

subsection \<open>Route\<close>

definition Route_init :: "pyval \<Rightarrow> pyval \<Rightarrow> pyval \<Rightarrow> pyval \<Rightarrow> pyobj" where
  "Route_init route_id number start_point end_point =
     \<lparr>cls_of = Route,
      attrs = [(''route_id'', route_id), (''number'', number), (''start_point'', start_point),
               (''end_point'', end_point), (''vehicles'', PList [])]\<rparr>"

text \<open>
  A mutator returns \<open>Inr\<close> the new heap, or \<open>Inl\<close> the exception together with the
  heap as it is when the exception leaves the method.
\<close>

definition Route_add_vehicle :: "heap \<Rightarrow> addr \<Rightarrow> pyval \<Rightarrow> (exn \<times> heap) + heap" where
  "Route_add_vehicle h self vehicle =
     (if \<not> py_isinstance h vehicle Vehicle then Inl (InvalidDataError Vehicle, h)
      else
        (case py_getattr h (PRef self) ''vehicles'' of
           Inl e \<Rightarrow> Inl (e, h)
         | Inr vs \<Rightarrow>
             (case vs of
                PList xs \<Rightarrow> Inr (set_attr h self ''vehicles'' (PList (xs @ [vehicle])))
              | _ \<Rightarrow> Inl (method_missing h vs ''append'', h))))"



text \<open>
  \<open>Route.to_dict\<close> calls \<^verbatim>\<open>vehicle.to_dict()\<close> on whatever the list holds, so the
  call is passed in as \<open>elem_to_dict\<close>.
\<close>

definition Route_to_dict :: "(pyval \<Rightarrow> exn + pyval) \<Rightarrow> heap \<Rightarrow> pyval \<Rightarrow> exn + pyval" where
  "Route_to_dict elem_to_dict h self =
     bindE (py_getattr h self ''route_id'') (\<lambda>rid.
     bindE (py_getattr h self ''number'') (\<lambda>n.
     bindE (py_getattr h self ''start_point'') (\<lambda>sp.
     bindE (py_getattr h self ''end_point'') (\<lambda>ep.
     bindE (py_getattr h self ''vehicles'') (\<lambda>vs.
     bindE (py_iter vs) (\<lambda>xs.
     bindE (mapE elem_to_dict xs) (\<lambda>ds.
       Inr (PDict [(''route_id'', rid), (''number'', n), (''start_point'', sp),
                   (''end_point'', ep), (''vehicles'', PList ds)]))))))))"

text \<open>
  \<^verbatim>\<open>x.to_dict()\<close> on any value. The call is resolved first; then a frame is needed, and
  \<open>depth\<close> is the number of nested \<open>to_dict\<close> frames the interpreter's stack still
  allows (a route whose list reaches the route itself raises \<open>RecursionError\<close>).
\<close>

fun py_to_dict :: "nat \<Rightarrow> heap \<Rightarrow> pyval \<Rightarrow> exn + pyval" where
  "py_to_dict 0 h v =
     (case resolve_method h v ''to_dict'' of Inl e \<Rightarrow> Inl e | Inr c \<Rightarrow> Inl RecursionError)"
| "py_to_dict (Suc depth) h v =
     (case resolve_method h v ''to_dict'' of
        Inl e \<Rightarrow> Inl e
      | Inr c \<Rightarrow>
          (case c of
             Vehicle \<Rightarrow> Vehicle_to_dict h v
           | Route \<Rightarrow> Route_to_dict (py_to_dict depth h) h v
           | Passenger \<Rightarrow> Passenger_to_dict h v
           | Schedule \<Rightarrow> Schedule_to_dict h v))"

text \<open>
  The loop of \<open>Route.from_dict\<close>:
  \<^verbatim>\<open>for vehicle_data in ...: route.add_vehicle(Vehicle.from_dict(vehicle_data))\<close>.
  An object built before an exception is unreachable afterwards, so a failing
  \<open>from_dict\<close> returns no heap.
\<close>

fun Route_from_dict_loop :: "heap \<Rightarrow> addr \<Rightarrow> pyval list \<Rightarrow> exn + heap" where
  "Route_from_dict_loop h route [] = Inr h"
| "Route_from_dict_loop h route (vehicle_data # rest) =
     (case Vehicle_from_dict h vehicle_data of
        Inl e \<Rightarrow> Inl e
      | Inr (h1, v) \<Rightarrow>
          (case Route_add_vehicle h1 route (PRef v) of
             Inl (e, _) \<Rightarrow> Inl e
           | Inr h2 \<Rightarrow> Route_from_dict_loop h2 route rest))"

definition Route_from_dict :: "heap \<Rightarrow> pyval \<Rightarrow> exn + heap \<times> addr" where
  "Route_from_dict h data =
     bindE (py_getitem data ''route_id'') (\<lambda>rid.
     bindE (py_getitem data ''number'') (\<lambda>n.
     bindE (py_getitem data ''start_point'') (\<lambda>sp.
     bindE (py_getitem data ''end_point'') (\<lambda>ep.
       (case alloc h (Route_init rid n sp ep) of
          (h1, route) \<Rightarrow>
            bindE (py_get h1 data ''vehicles'' (PList [])) (\<lambda>vds.
            bindE (py_iter vds) (\<lambda>xs.
            bindE (Route_from_dict_loop h1 route xs) (\<lambda>h2.
              Inr (h2, route)))))))))"

section \<open>The registry\<close>

text \<open>
  \<open>TransportSystem\<close>: three lists. Its own attributes are only ever lists, so it is a
  record; it lives beside the heap that holds the entities.
\<close>

record transport_system =
  routes :: "pyval list"
  passengers :: "pyval list"
  schedules :: "pyval list"


type_synonym state = "heap \<times> transport_system"

definition create_route :: "heap \<Rightarrow> transport_system \<Rightarrow> pyval \<Rightarrow> (exn \<times> state) + state" where
  "create_route h ts route =
     (if \<not> py_isinstance h route Route then Inl (InvalidDataError Route, (h, ts))
      else Inr (h, ts\<lparr>routes := routes ts @ [route]\<rparr>))"

definition find_route :: "heap \<Rightarrow> transport_system \<Rightarrow> int \<Rightarrow> exn + pyval option" where
  "find_route h ts route_id = scan_by_id h ''route_id'' route_id (routes ts)"

definition read_route :: "heap \<Rightarrow> transport_system \<Rightarrow> int \<Rightarrow> exn + pyval" where
  "read_route h ts route_id =
     (case find_route h ts route_id of
        Inl e \<Rightarrow> Inl e
      | Inr (Some route) \<Rightarrow> Inr route
      | Inr None \<Rightarrow> Inl (RouteNotFoundError route_id))"

text \<open>The loop of \<open>update_route\<close> over \<^verbatim>\<open>kwargs.items()\<close>.\<close>

fun update_route_loop :: "heap \<Rightarrow> pyval \<Rightarrow> (string \<times> pyval) list \<Rightarrow> (exn \<times> heap) + heap" where
  "update_route_loop h route [] = Inr h"
| "update_route_loop h route ((key, val) # kwargs) =
     (if py_hasattr h route key then
        (case py_setattr h route key val of
           Inl e \<Rightarrow> Inl (e, h)
         | Inr h1 \<Rightarrow> update_route_loop h1 route kwargs)
      else update_route_loop h route kwargs)"

text \<open>
  \<^verbatim>\<open>def update_route(self, route_id: int, **kwargs)\<close>: a keyword named like one of the
  two parameters cannot reach \<open>kwargs\<close>; the call raises \<open>TypeError\<close> before the body
  runs (when both are given, the one written first is reported).
\<close>

definition update_route ::
  "heap \<Rightarrow> transport_system \<Rightarrow> int \<Rightarrow> (string \<times> pyval) list \<Rightarrow> (exn \<times> state) + state" where
  "update_route h ts route_id kwargs =
     (case filter (\<lambda>k. k = ''self'' \<or> k = ''route_id'') (map fst kwargs) of
        k # _ \<Rightarrow> Inl (TypeError (MultipleValues k), (h, ts))
      | [] \<Rightarrow>
          (case read_route h ts route_id of
             Inl e \<Rightarrow> Inl (e, (h, ts))
           | Inr route \<Rightarrow>
               (case update_route_loop h route kwargs of
                  Inl (e, h1) \<Rightarrow> Inl (e, (h1, ts))
                | Inr h1 \<Rightarrow> Inr (h1, ts))))"

definition delete_route :: "heap \<Rightarrow> transport_system \<Rightarrow> int \<Rightarrow> (exn \<times> state) + state" where
  "delete_route h ts route_id =
     (case read_route h ts route_id of
        Inl e \<Rightarrow> Inl (e, (h, ts))
      | Inr route \<Rightarrow> Inr (h, ts\<lparr>routes := remove1 route (routes ts)\<rparr>))"



section \<open>JSON files\<close>

text \<open>
  A file either holds the JSON text of a document or text that \<open>json.load\<close> rejects with
  a message. A document is a value without object references.
\<close>

datatype file_content = Text pyval | Malformed string

type_synonym fs = "string \<Rightarrow> file_content option"

fun json_ok :: "pyval \<Rightarrow> bool" where
  "json_ok (PList xs) = (\<forall>x \<in> set xs. json_ok x)"
| "json_ok (PDict kvs) = (\<forall>kv \<in> set kvs. json_ok (snd kv))"
| "json_ok (PRef a) = False"
| "json_ok v = True"

text \<open>
  \<open>save_to_json\<close> builds the whole document, then opens the file and dumps. It assigns
  nothing in the registry. What the file holds after a failed dump is not modelled: a
  failing call returns the exception only.
\<close>

definition save_to_json ::
  "nat \<Rightarrow> heap \<Rightarrow> transport_system \<Rightarrow> fs \<Rightarrow> string \<Rightarrow> exn + fs" where
  "save_to_json depth h ts files filename =
     (case
        bindE (mapE (py_to_dict depth h) (routes ts)) (\<lambda>rs.
        bindE (mapE (py_to_dict depth h) (passengers ts)) (\<lambda>ps.
        bindE (mapE (py_to_dict depth h) (schedules ts)) (\<lambda>ss.
          (let data = PDict [(''routes'', PList rs), (''passengers'', PList ps),
                             (''schedules'', PList ss)]
           in if json_ok data then Inr (files(filename \<mapsto> Text data))
              else Inl (TypeError NotSerializable)))))
      of
        Inl e \<Rightarrow> Inl (FileOperationError SaveJson e)
      | Inr files1 \<Rightarrow> Inr files1)"


text \<open>\<^verbatim>\<open>[X.from_dict(d) for d in ds]\<close>, each call allocating in the heap.\<close>

fun from_dict_list ::
  "(heap \<Rightarrow> pyval \<Rightarrow> exn + heap \<times> addr) \<Rightarrow> heap \<Rightarrow> pyval list \<Rightarrow> exn + heap \<times> pyval list" where
  "from_dict_list from_dict h [] = Inr (h, [])"
| "from_dict_list from_dict h (d # ds) =
     (case from_dict h d of
        Inl e \<Rightarrow> Inl e
      | Inr (h1, a) \<Rightarrow>
          (case from_dict_list from_dict h1 ds of
             Inl e \<Rightarrow> Inl e
           | Inr (h2, xs) \<Rightarrow> Inr (h2, PRef a # xs)))"

text \<open>\<^verbatim>\<open>[X.from_dict(d) for d in data.get(key, [])]\<close>.\<close>

definition load_collection ::
  "(heap \<Rightarrow> pyval \<Rightarrow> exn + heap \<times> addr) \<Rightarrow> heap \<Rightarrow> pyval \<Rightarrow> string \<Rightarrow> exn + heap \<times> pyval list" where
  "load_collection from_dict h data key =
     bindE (py_get h data key (PList [])) (\<lambda>v.
     bindE (py_iter v) (\<lambda>ds.
       from_dict_list from_dict h ds))"


section \<open>Notions used by the statements\<close>

text \<open>\<open>x.key\<close> can be read; \<open>x.key == n\<close> holds.\<close>

definition readable :: "heap \<Rightarrow> string \<Rightarrow> pyval \<Rightarrow> bool" where
  "readable h key x = (case py_getattr h x key of Inl _ \<Rightarrow> False | Inr _ \<Rightarrow> True)"

definition has_id :: "heap \<Rightarrow> string \<Rightarrow> int \<Rightarrow> pyval \<Rightarrow> bool" where
  "has_id h key n x = (case py_getattr h x key of Inl _ \<Rightarrow> False | Inr v \<Rightarrow> py_eq_int v n)"

text \<open>The state a mutator leaves behind, whether it returned or raised.\<close>

definition state_after :: "(exn \<times> 's) + 's \<Rightarrow> 's" where
  "state_after r = (case r of Inl (e, s) \<Rightarrow> s | Inr s \<Rightarrow> s)"

text \<open>
  A sample heap: a vehicle, the route of the specification's scenario holding it, a second
  route with the same id, a passenger, a schedule, and a route that holds the one vehicle
  twice.
\<close>

definition ex_heap :: heap where
  "ex_heap =
     [\<lparr>cls_of = Vehicle,
       attrs = [(''vehicle_id'', PInt 1), (''model'', PStr ''Bus''), (''capacity'', PInt 50),
                (''type'', PStr ''Bus'')]\<rparr>,
      \<lparr>cls_of = Route,
       attrs = [(''route_id'', PInt 1), (''number'', PStr ''t77''), (''start_point'', PStr ''A''),
                (''end_point'', PStr ''B''), (''vehicles'', PList [PRef 0])]\<rparr>,
      \<lparr>cls_of = Route,
       attrs = [(''route_id'', PInt 1), (''number'', PStr ''t78''), (''start_point'', PStr ''C''),
                (''end_point'', PStr ''D''), (''vehicles'', PList [])]\<rparr>,
      \<lparr>cls_of = Passenger,
       attrs = [(''passenger_id'', PInt 1), (''name'', PStr ''Ann''),
                (''card_number'', PStr ''0021'')]\<rparr>,
      \<lparr>cls_of = Schedule,
       attrs = [(''schedule_id'', PInt 1), (''route_id'', PInt 1),
                (''departure_time'', PStr ''08:00''), (''arrival_time'', PStr ''08:45'')]\<rparr>,
      \<lparr>cls_of = Route,
       attrs = [(''route_id'', PInt 2), (''number'', PStr ''37''), (''start_point'', PStr ''E''),
                (''end_point'', PStr ''F''), (''vehicles'', PList [PRef 0, PRef 0])]\<rparr>]"

definition ex_ts :: transport_system where
  "ex_ts = \<lparr>routes = [PRef 1], passengers = [PRef 3], schedules = [PRef 4]\<rparr>"

text \<open>The names \<open>setattr\<close> does not simply store in the instance dictionary.\<close>

definition reserved_names :: "string list" where
  "reserved_names = [''__class__'', ''__dict__'', ''__weakref__'']"

text \<open>The keys each \<open>from_dict\<close> reads with \<^verbatim>\<open>data[...]\<close>, in the order it reads them.\<close>

definition Vehicle_keys :: "string list" where
  "Vehicle_keys = [''vehicle_id'', ''model'', ''capacity'', ''type'']"

definition Route_keys :: "string list" where
  "Route_keys = [''route_id'', ''number'', ''start_point'', ''end_point'']"

definition Passenger_keys :: "string list" where
  "Passenger_keys = [''passenger_id'', ''name'', ''card_number'']"

definition Schedule_keys :: "string list" where
  "Schedule_keys = [''schedule_id'', ''route_id'', ''departure_time'', ''arrival_time'']"

text \<open>\<open>data\<close> is a dict that has every key of \<open>ks\<close>.\<close>

definition complete :: "string list \<Rightarrow> pyval \<Rightarrow> bool" where
  "complete ks data =
     (case data of PDict d \<Rightarrow> list_all (\<lambda>k. map_of d k \<noteq> None) ks | _ \<Rightarrow> False)"

text \<open>\<open>v\<close> is an instance of \<open>c\<close> whose attributes \<open>ks\<close> are the entries of \<open>data\<close>.\<close>

definition built_from :: "heap \<Rightarrow> cls \<Rightarrow> string list \<Rightarrow> pyval \<Rightarrow> pyval \<Rightarrow> bool" where
  "built_from h c ks v data =
     (py_isinstance h v c \<and> list_all (\<lambda>k. py_getattr h v k = py_getitem data k) ks)"

text \<open>What the loop of \<open>Route.from_dict\<close> iterates over.\<close>

definition nested_vehicles :: "heap \<Rightarrow> pyval \<Rightarrow> exn + pyval list" where
  "nested_vehicles h data = bindE (py_get h data ''vehicles'' (PList [])) py_iter"

text \<open>
  \<open>r\<close> is a route built from \<open>data\<close>: its own four attributes, and a vehicle list
  with one vehicle built from each nested mapping, in order.
\<close>

definition route_built_from :: "heap \<Rightarrow> pyval \<Rightarrow> pyval \<Rightarrow> bool" where
  "route_built_from h r data =
     (built_from h Route Route_keys r data \<and>
      (case py_getattr h r ''vehicles'' of
         Inr (PList vs) \<Rightarrow>
           (case nested_vehicles h data of
              Inr vds \<Rightarrow> list_all2 (built_from h Vehicle Vehicle_keys) vs vds
            | Inl _ \<Rightarrow> False)
       | _ \<Rightarrow> False))"

text \<open>
  A well-formed entity: an instance of its class whose \<open>to_dict\<close> is callable and whose
  fields hold values JSON can carry. A well-formed route also has a list of well-formed
  vehicles; a well-formed registry holds well-formed entities only.
\<close>

definition wf_entity :: "heap \<Rightarrow> cls \<Rightarrow> string list \<Rightarrow> pyval \<Rightarrow> bool" where
  "wf_entity h c ks v =
     (py_isinstance h v c \<and> resolve_method h v ''to_dict'' = Inr c \<and>
      list_all (\<lambda>k. case py_getattr h v k of Inl _ \<Rightarrow> False | Inr x \<Rightarrow> json_ok x) ks)"

definition wf_route :: "heap \<Rightarrow> pyval \<Rightarrow> bool" where
  "wf_route h r =
     (wf_entity h Route Route_keys r \<and>
      (case py_getattr h r ''vehicles'' of
         Inr (PList vs) \<Rightarrow> list_all (wf_entity h Vehicle Vehicle_keys) vs
       | _ \<Rightarrow> False))"

definition wf_registry :: "heap \<Rightarrow> transport_system \<Rightarrow> bool" where
  "wf_registry h ts =
     (list_all (wf_route h) (routes ts) \<and>
      list_all (wf_entity h Passenger Passenger_keys) (passengers ts) \<and>
      list_all (wf_entity h Schedule Schedule_keys) (schedules ts))"

text \<open>
  Field-for-field equality of an entity \<open>v\<close> in heap \<open>h\<close> and an entity \<open>v'\<close> in heap
  \<open>h'\<close>; for routes, the vehicle lists are equal element by element, in order.
\<close>

definition entity_eq :: "cls \<Rightarrow> string list \<Rightarrow> heap \<Rightarrow> pyval \<Rightarrow> heap \<Rightarrow> pyval \<Rightarrow> bool" where
  "entity_eq c ks h v h' v' =
     (py_isinstance h v c \<and> py_isinstance h' v' c \<and>
      list_all (\<lambda>k. readable h k v \<and> py_getattr h' v' k = py_getattr h v k) ks)"

definition route_eq :: "heap \<Rightarrow> pyval \<Rightarrow> heap \<Rightarrow> pyval \<Rightarrow> bool" where
  "route_eq h r h' r' =
     (entity_eq Route Route_keys h r h' r' \<and>
      (case py_getattr h r ''vehicles'' of
         Inr (PList vs) \<Rightarrow>
           (case py_getattr h' r' ''vehicles'' of
              Inr (PList vs') \<Rightarrow> list_all2 (\<lambda>v v'. entity_eq Vehicle Vehicle_keys h v h' v') vs vs'
            | _ \<Rightarrow> False)
       | _ \<Rightarrow> False))"

text \<open>Sample mappings: a vehicle, and a route with that vehicle nested.\<close>

definition ex_vehicle_dict :: pyval where
  "ex_vehicle_dict = PDict [(''vehicle_id'', PInt 1), (''model'', PStr ''Bus''),
     (''capacity'', PInt 50), (''type'', PStr ''Bus'')]"

definition ex_route_dict :: pyval where
  "ex_route_dict = PDict [(''route_id'', PInt 1), (''number'', PStr ''t77''),
     (''start_point'', PStr ''A''), (''end_point'', PStr ''C''),
     (''vehicles'', PList [ex_vehicle_dict])]"

text \<open>The list a comprehension of \<open>load_from_json\<close> iterates over: \<^verbatim>\<open>data.get(key, [])\<close>.\<close>

definition doc_list :: "heap \<Rightarrow> pyval \<Rightarrow> string \<Rightarrow> exn + pyval list" where
  "doc_list h data key = bindE (py_get h data key (PList [])) py_iter"

text \<open>A mapping from which \<open>Route.from_dict\<close> can build a route: its own keys and complete nested vehicles.\<close>

definition route_doc :: "pyval \<Rightarrow> bool" where
  "route_doc data =
     (complete Route_keys data \<and>
      (case nested_vehicles [] data of
         Inr vds \<Rightarrow> list_all (complete Vehicle_keys) vds
       | Inl _ \<Rightarrow> False))"

text \<open>\<open>data\<close> is a JSON mapping whose entries \<open>ks\<close> are the attributes of \<open>v\<close>.\<close>

definition dict_of :: "heap \<Rightarrow> string list \<Rightarrow> pyval \<Rightarrow> pyval \<Rightarrow> bool" where
  "dict_of h ks v data =
     (json_ok data \<and> complete ks data \<and>
      list_all (\<lambda>k. py_getitem data k = py_getattr h v k) ks)"

definition route_dict_of :: "heap \<Rightarrow> pyval \<Rightarrow> pyval \<Rightarrow> bool" where
  "route_dict_of h r data =
     (dict_of h Route_keys r data \<and>
      (case py_getattr h r ''vehicles'' of
         Inr (PList vs) \<Rightarrow>
           (case nested_vehicles [] data of
              Inr vds \<Rightarrow> list_all2 (dict_of h Vehicle_keys) vs vds
            | Inl _ \<Rightarrow> False)
       | _ \<Rightarrow> False))"


section \<open>Basic facts\<close>

lemma bindE_Inl [simp]: "bindE (Inl e) f = Inl e"
  by (simp add: bindE_def)

lemma bindE_Inr [simp]: "bindE (Inr x) f = f x"
  by (simp add: bindE_def)


lemma bindE_eq_Inl: "bindE m f = Inl e \<longleftrightarrow> (m = Inl e \<or> (\<exists>x. m = Inr x \<and> f x = Inl e))"
  by (cases m) simp_all


lemma scan_by_id_total:
  "\<forall>x \<in> set xs. readable h key x \<Longrightarrow> scan_by_id h key n xs = Inr (find (has_id h key n) xs)"
  by (induction xs) (auto simp: has_id_def readable_def split: sum.splits)

lemma scan_by_id_prefix_readable:
  "scan_by_id h key n xs = Inr (Some x) \<Longrightarrow>
     \<exists>pre post. xs = pre @ x # post \<and> has_id h key n x
        \<and> (\<forall>y \<in> set pre. readable h key y \<and> \<not> has_id h key n y)"
proof (induction xs)
  case Nil
  then show ?case by simp
next
  case (Cons a xs)
  show ?case
  proof (cases "has_id h key n a")
    case True
    with Cons.prems have "x = a" by (auto simp: has_id_def split: sum.splits)
    with True show ?thesis by (intro exI[of _ "[]"] exI[of _ xs]) auto
  next
    case False
    with Cons.prems have r: "readable h key a" and s: "scan_by_id h key n xs = Inr (Some x)"
      by (auto simp: has_id_def readable_def split: sum.splits if_splits)
    from Cons.IH[OF s] obtain pre post where
      "xs = pre @ x # post" "has_id h key n x" "\<forall>y \<in> set pre. readable h key y \<and> \<not> has_id h key n y"
      by blast
    with r False show ?thesis by (intro exI[of _ "a # pre"] exI[of _ post]) auto
  qed
qed

lemma has_id_ref: "has_id h key n x \<Longrightarrow> \<exists>a obj. x = PRef a \<and> heap_get h a = Some obj"
  by (auto simp: has_id_def py_getattr_def split: pyval.splits option.splits sum.splits)





section \<open>Routes in the registry\<close>

lemma scan_by_id_append:
  "scan_by_id h key n (xs @ ys) =
     (case scan_by_id h key n xs of
        Inl e \<Rightarrow> Inl e
      | Inr (Some x) \<Rightarrow> Inr (Some x)
      | Inr None \<Rightarrow> scan_by_id h key n ys)"
  by (induction xs) (auto split: sum.splits)

lemma scan_by_id_skip:
  "\<forall>y \<in> set pre. readable h key y \<and> \<not> has_id h key n y \<Longrightarrow>
     scan_by_id h key n (pre @ ys) = scan_by_id h key n ys"
  by (induction pre) (auto simp: readable_def has_id_def split: sum.splits)

lemma scan_by_id_single:
  "has_id h key n x \<Longrightarrow> scan_by_id h key n (x # ys) = Inr (Some x)"
  by (auto simp: has_id_def split: sum.splits)

lemma read_route_find:
  "read_route h ts n = Inr r \<longleftrightarrow> find_route h ts n = Inr (Some r)"
  by (auto simp: read_route_def split: sum.splits option.splits)

lemma read_route_ref:
  "read_route h ts n = Inr r \<Longrightarrow> \<exists>a obj. r = PRef a \<and> heap_get h a = Some obj"
  using scan_by_id_prefix_readable[of h "''route_id''" n "routes ts" r] has_id_ref
  by (auto simp: read_route_find find_route_def)

lemma read_route_has_id:
  "read_route h ts n = Inr r \<Longrightarrow> has_id h ''route_id'' n r"
  using scan_by_id_prefix_readable[of h "''route_id''" n "routes ts" r]
  by (auto simp: read_route_find find_route_def)

text \<open>
  Against claim C3 as stated: the registry holds route 1 (number t77); a second route
  object whose id is also 1 (number t78) is created; \<open>read_route 1\<close> then returns the
  older object, which is neither the created object nor equal to it field by field.
\<close>

theorem C3_counterexample:
  "create_route ex_heap ex_ts (PRef 2) = Inr (ex_heap, ex_ts\<lparr>routes := [PRef 1, PRef 2]\<rparr>)
   \<and> py_getattr ex_heap (PRef 2) ''route_id'' = Inr (PInt 1)
   \<and> read_route ex_heap (ex_ts\<lparr>routes := [PRef 1, PRef 2]\<rparr>) 1 = Inr (PRef 1)
   \<and> read_route ex_heap (ex_ts\<lparr>routes := [PRef 1, PRef 2]\<rparr>) 1 \<noteq> Inr (PRef 2)
   \<and> py_getattr ex_heap (PRef 1) ''number'' = Inr (PStr ''t77'')
   \<and> py_getattr ex_heap (PRef 2) ''number'' = Inr (PStr ''t78'')"
  by code_simp

text \<open>
  Claim C3, amended. For a \<open>Route\<close> instance \<open>r\<close> whose \<open>route_id\<close> equals \<open>n\<close>,
  \<open>create_route\<close> succeeds and leaves the heap alone; \<open>read_route n\<close> afterwards
  returns \<open>r\<close> itself when no route registered before has that id, and otherwise the
  first route registered before with that id.
\<close>

theorem C3_create_then_read:
  assumes "py_isinstance h r Route" and "has_id h ''route_id'' n r"
  shows "\<exists>ts'. create_route h ts r = Inr (h, ts')
           \<and> (find_route h ts n = Inr None \<longrightarrow> read_route h ts' n = Inr r)
           \<and> (\<forall>x. find_route h ts n = Inr (Some x) \<longrightarrow> read_route h ts' n = Inr x)"
proof -
  from assms(2) have single: "scan_by_id h ''route_id'' n [r] = Inr (Some r)"
    by (rule scan_by_id_single)
  have "create_route h ts r = Inr (h, ts\<lparr>routes := routes ts @ [r]\<rparr>)"
    using assms(1) by (simp add: create_route_def)
  moreover have "read_route h (ts\<lparr>routes := routes ts @ [r]\<rparr>) n = Inr r"
    if "find_route h ts n = Inr None"
    using that single by (simp add: read_route_def find_route_def scan_by_id_append)
  moreover have "read_route h (ts\<lparr>routes := routes ts @ [r]\<rparr>) n = Inr x"
    if "find_route h ts n = Inr (Some x)" for x
    using that by (simp add: read_route_def find_route_def scan_by_id_append)
  ultimately show ?thesis by blast
qed

theorem C3_witness:
  "py_isinstance ex_heap (PRef 5) Route \<and> has_id ex_heap ''route_id'' 2 (PRef 5)
   \<and> find_route ex_heap ex_ts 2 = Inr None
   \<and> create_route ex_heap ex_ts (PRef 5) = Inr (ex_heap, ex_ts\<lparr>routes := [PRef 1, PRef 5]\<rparr>)
   \<and> read_route ex_heap (ex_ts\<lparr>routes := [PRef 1, PRef 5]\<rparr>) 2 = Inr (PRef 5)"
proof -
  have i: "py_isinstance ex_heap (PRef 5) Route" by code_simp
  have d: "has_id ex_heap ''route_id'' 2 (PRef 5)" by code_simp
  have f: "find_route ex_heap ex_ts 2 = Inr None" by code_simp
  have c: "create_route ex_heap ex_ts (PRef 5) = Inr (ex_heap, ex_ts\<lparr>routes := [PRef 1, PRef 5]\<rparr>)"
    by code_simp
  from C3_create_then_read[OF i d, of ex_ts] c f
  have "read_route ex_heap (ex_ts\<lparr>routes := [PRef 1, PRef 5]\<rparr>) 2 = Inr (PRef 5)"
    by auto
  with i d f c show ?thesis by (intro conjI)
qed

text \<open>
  Against claim C4 as stated: with two routes of id 1 registered, \<open>delete_route 1\<close>
  removes the first, and \<open>read_route 1\<close> then returns the second instead of failing.
\<close>

theorem C4_counterexample:
  "read_route ex_heap (ex_ts\<lparr>routes := [PRef 1, PRef 2]\<rparr>) 1 = Inr (PRef 1)
   \<and> delete_route ex_heap (ex_ts\<lparr>routes := [PRef 1, PRef 2]\<rparr>) 1
       = Inr (ex_heap, ex_ts\<lparr>routes := [PRef 2]\<rparr>)
   \<and> read_route ex_heap (ex_ts\<lparr>routes := [PRef 2]\<rparr>) 1 = Inr (PRef 2)
   \<and> read_route ex_heap (ex_ts\<lparr>routes := [PRef 2]\<rparr>) 1 \<noteq> Inl (RouteNotFoundError 1)"
  by code_simp

text \<open>
  Claim C4, amended. When \<open>read_route n\<close> finds \<open>r\<close>, \<open>delete_route n\<close> succeeds
  and removes exactly the first occurrence of \<open>r\<close>: the list loses one element and the
  others keep their order. A later \<open>read_route n\<close> raises \<open>RouteNotFoundError\<close> when
  no remaining route has the id; when one has, it returns the first of them (the routes
  before \<open>r\<close> never match).
\<close>

theorem C4_delete_route:
  assumes "read_route h ts n = Inr r"
  shows "\<exists>pre post. routes ts = pre @ r # post \<and> r \<notin> set pre
           \<and> delete_route h ts n = Inr (h, ts\<lparr>routes := pre @ post\<rparr>)
           \<and> length (pre @ post) + 1 = length (routes ts)
           \<and> (list_all (\<lambda>y. readable h ''route_id'' y \<and> \<not> has_id h ''route_id'' n y) post \<longrightarrow>
                read_route h (ts\<lparr>routes := pre @ post\<rparr>) n = Inl (RouteNotFoundError n))
           \<and> (\<forall>x. list_all (readable h ''route_id'') post
                  \<and> find (has_id h ''route_id'' n) post = Some x \<longrightarrow>
                read_route h (ts\<lparr>routes := pre @ post\<rparr>) n = Inr x)"
proof -
  from assms have "scan_by_id h ''route_id'' n (routes ts) = Inr (Some r)"
    by (simp add: read_route_find find_route_def)
  from scan_by_id_prefix_readable[OF this] obtain pre post where
    split: "routes ts = pre @ r # post" and m: "has_id h ''route_id'' n r"
    and pre: "\<forall>y \<in> set pre. readable h ''route_id'' y \<and> \<not> has_id h ''route_id'' n y"
    by blast
  from pre m have notin: "r \<notin> set pre" by blast
  then have rem: "remove1 r (routes ts) = pre @ post"
    by (simp add: split remove1_append)
  have del: "delete_route h ts n = Inr (h, ts\<lparr>routes := pre @ post\<rparr>)"
    using assms rem by (simp add: delete_route_def)
  have after: "find_route h (ts\<lparr>routes := pre @ post\<rparr>) n = scan_by_id h ''route_id'' n post"
    using pre by (simp add: find_route_def scan_by_id_skip)
  have none: "read_route h (ts\<lparr>routes := pre @ post\<rparr>) n = Inl (RouteNotFoundError n)"
    if "list_all (\<lambda>y. readable h ''route_id'' y \<and> \<not> has_id h ''route_id'' n y) post"
  proof -
    from that have "\<forall>y \<in> set post. readable h ''route_id'' y \<and> \<not> has_id h ''route_id'' n y"
      by (simp add: list_all_iff)
    from scan_by_id_skip[OF this, of "[]"] show ?thesis
      by (simp add: read_route_def after)
  qed
  have some: "read_route h (ts\<lparr>routes := pre @ post\<rparr>) n = Inr x"
    if "list_all (readable h ''route_id'') post \<and> find (has_id h ''route_id'' n) post = Some x" for x
    using that by (simp add: read_route_def after scan_by_id_total list_all_iff)
  from split notin del none some show ?thesis
    by (intro exI[of _ pre] exI[of _ post]) (simp add: split)
qed

theorem C4_witness:
  "read_route ex_heap (ex_ts\<lparr>routes := [PRef 1, PRef 5]\<rparr>) 1 = Inr (PRef 1)
   \<and> delete_route ex_heap (ex_ts\<lparr>routes := [PRef 1, PRef 5]\<rparr>) 1
       = Inr (ex_heap, ex_ts\<lparr>routes := [PRef 5]\<rparr>)
   \<and> read_route ex_heap (ex_ts\<lparr>routes := [PRef 5]\<rparr>) 1 = Inl (RouteNotFoundError 1)"
proof -
  let ?ts = "ex_ts\<lparr>routes := [PRef 1, PRef 5]\<rparr>"
  have r: "read_route ex_heap ?ts 1 = Inr (PRef 1)" by code_simp
  from C4_delete_route[OF r] obtain pre post where
    s: "routes ?ts = pre @ PRef 1 # post" and n: "PRef 1 \<notin> set pre"
    and d: "delete_route ex_heap ?ts 1 = Inr (ex_heap, ?ts\<lparr>routes := pre @ post\<rparr>)"
    and f: "list_all (\<lambda>y. readable ex_heap ''route_id'' y \<and> \<not> has_id ex_heap ''route_id'' 1 y) post \<longrightarrow>
                read_route ex_heap (?ts\<lparr>routes := pre @ post\<rparr>) 1 = Inl (RouteNotFoundError 1)"
    by blast
  from s n have "pre = [] \<and> post = [PRef 5]"
    by (cases pre) auto
  moreover have "list_all (\<lambda>y. readable ex_heap ''route_id'' y \<and> \<not> has_id ex_heap ''route_id'' 1 y) [PRef 5]"
    by code_simp
  ultimately show ?thesis using r d f by simp
qed

section \<open>Updating a route\<close>

lemma heap_get_set_attr:
  "heap_get (set_attr h a k v) b =
     (if b = a then map_option (\<lambda>obj. obj\<lparr>attrs := AList.update k v (attrs obj)\<rparr>) (heap_get h a)
      else heap_get h b)"
  by (auto simp: set_attr_def heap_get_def split: option.splits)

lemma length_set_attr [simp]: "length (set_attr h a k v) = length h"
  by (simp add: set_attr_def split: option.splits)

lemma py_getattr_set_attr:
  "heap_get h a = Some obj \<Longrightarrow>
     py_getattr (set_attr h a k v) (PRef a) k' = (if k' = k then Inr v else py_getattr h (PRef a) k')"
  by (simp add: py_getattr_def heap_get_set_attr update_conv')

lemma py_hasattr_set_attr:
  "py_hasattr h (PRef a) k \<Longrightarrow> py_hasattr (set_attr h a k v) (PRef a) k' = py_hasattr h (PRef a) k'"
  by (auto simp: py_hasattr_def heap_get_set_attr dom_update split: option.splits)

lemma py_isinstance_set_attr [simp]:
  "py_isinstance (set_attr h a k v) x c = py_isinstance h x c"
  by (auto simp: py_isinstance_def heap_get_set_attr split: pyval.splits option.splits)

lemma py_setattr_plain:
  "heap_get h a = Some obj \<Longrightarrow> k \<notin> set reserved_names \<Longrightarrow>
     py_setattr h (PRef a) k v = Inr (set_attr h a k v)"
  by (simp add: py_setattr_def reserved_names_def)

lemma update_route_loop_plain:
  assumes "heap_get h a = Some obj" and "distinct (map fst kw)"
    and "\<forall>k \<in> set (map fst kw). k \<notin> set reserved_names"
  shows "\<exists>h'. update_route_loop h (PRef a) kw = Inr h'
           \<and> length h' = length h
           \<and> (\<forall>b. b \<noteq> a \<longrightarrow> heap_get h' b = heap_get h b)
           \<and> (\<forall>c x. py_isinstance h' x c = py_isinstance h x c)
           \<and> (\<forall>k. py_hasattr h' (PRef a) k = py_hasattr h (PRef a) k)
           \<and> (\<forall>k v. (k, v) \<in> set kw \<and> py_hasattr h (PRef a) k \<longrightarrow> py_getattr h' (PRef a) k = Inr v)
           \<and> (\<forall>k. k \<notin> fst ` set kw \<or> \<not> py_hasattr h (PRef a) k \<longrightarrow>
                 py_getattr h' (PRef a) k = py_getattr h (PRef a) k)"
  using assms
proof (induction kw arbitrary: h obj)
  case Nil
  then show ?case by simp
next
  case (Cons kv kw)
  obtain k v where kv: "kv = (k, v)" by (cases kv)
  from Cons.prems kv have dist: "distinct (map fst kw)" and fresh: "k \<notin> fst ` set kw"
    and res: "\<forall>k \<in> set (map fst kw). k \<notin> set reserved_names" and kres: "k \<notin> set reserved_names"
    by auto
  show ?case
  proof (cases "py_hasattr h (PRef a) k")
    case False
    from Cons.IH[OF Cons.prems(1) dist res] obtain h' where IH:
      "update_route_loop h (PRef a) kw = Inr h'" "length h' = length h"
      "\<forall>b. b \<noteq> a \<longrightarrow> heap_get h' b = heap_get h b"
      "\<forall>c x. py_isinstance h' x c = py_isinstance h x c"
      "\<forall>k. py_hasattr h' (PRef a) k = py_hasattr h (PRef a) k"
      "\<forall>k v. (k, v) \<in> set kw \<and> py_hasattr h (PRef a) k \<longrightarrow> py_getattr h' (PRef a) k = Inr v"
      "\<forall>k. k \<notin> fst ` set kw \<or> \<not> py_hasattr h (PRef a) k \<longrightarrow>
                 py_getattr h' (PRef a) k = py_getattr h (PRef a) k"
      by blast
    have "update_route_loop h (PRef a) (kv # kw) = Inr h'"
      using False IH(1) kv by simp
    moreover have "\<forall>k' v'. (k', v') \<in> set (kv # kw) \<and> py_hasattr h (PRef a) k' \<longrightarrow>
        py_getattr h' (PRef a) k' = Inr v'"
      using IH(6) False kv by auto
    moreover have "\<forall>k'. k' \<notin> fst ` set (kv # kw) \<or> \<not> py_hasattr h (PRef a) k' \<longrightarrow>
                 py_getattr h' (PRef a) k' = py_getattr h (PRef a) k'"
      using IH(7) by auto
    ultimately show ?thesis using IH(2-5) by blast
  next
    case True
    let ?h1 = "set_attr h a k v"
    have get1: "heap_get ?h1 a = Some (obj\<lparr>attrs := AList.update k v (attrs obj)\<rparr>)"
      using Cons.prems(1) by (simp add: heap_get_set_attr)
    from Cons.IH[OF get1 dist res] obtain h' where IH:
      "update_route_loop ?h1 (PRef a) kw = Inr h'" "length h' = length ?h1"
      "\<forall>b. b \<noteq> a \<longrightarrow> heap_get h' b = heap_get ?h1 b"
      "\<forall>c x. py_isinstance h' x c = py_isinstance ?h1 x c"
      "\<forall>k. py_hasattr h' (PRef a) k = py_hasattr ?h1 (PRef a) k"
      "\<forall>k v. (k, v) \<in> set kw \<and> py_hasattr ?h1 (PRef a) k \<longrightarrow> py_getattr h' (PRef a) k = Inr v"
      "\<forall>k. k \<notin> fst ` set kw \<or> \<not> py_hasattr ?h1 (PRef a) k \<longrightarrow>
                 py_getattr h' (PRef a) k = py_getattr ?h1 (PRef a) k"
      by blast
    have has: "\<And>k'. py_hasattr ?h1 (PRef a) k' = py_hasattr h (PRef a) k'"
      using True by (rule py_hasattr_set_attr)
    have get: "\<And>k'. py_getattr ?h1 (PRef a) k' = (if k' = k then Inr v else py_getattr h (PRef a) k')"
      using Cons.prems(1) by (rule py_getattr_set_attr)
    have run: "update_route_loop h (PRef a) (kv # kw) = Inr h'"
      using True IH(1) kv py_setattr_plain[OF Cons.prems(1) kres] by simp
    have len: "length h' = length h" using IH(2) by simp
    have frame: "\<forall>b. b \<noteq> a \<longrightarrow> heap_get h' b = heap_get h b"
      using IH(3) by (simp add: heap_get_set_attr)
    have inst: "\<forall>c x. py_isinstance h' x c = py_isinstance h x c"
      using IH(4) by simp
    have hasall: "\<forall>k'. py_hasattr h' (PRef a) k' = py_hasattr h (PRef a) k'"
      using IH(5) has by simp
    have set: "\<forall>k' v'. (k', v') \<in> set (kv # kw) \<and> py_hasattr h (PRef a) k' \<longrightarrow>
        py_getattr h' (PRef a) k' = Inr v'"
    proof (intro allI impI)
      fix k' v' assume A: "(k', v') \<in> set (kv # kw) \<and> py_hasattr h (PRef a) k'"
      show "py_getattr h' (PRef a) k' = Inr v'"
      proof (cases "(k', v') = (k, v)")
        case True
        with fresh IH(7) get show ?thesis by auto
      next
        case False
        with A kv have "(k', v') \<in> set kw" by auto
        with A IH(6) has show ?thesis by blast
      qed
    qed
    have keep: "\<forall>k'. k' \<notin> fst ` set (kv # kw) \<or> \<not> py_hasattr h (PRef a) k' \<longrightarrow>
                 py_getattr h' (PRef a) k' = py_getattr h (PRef a) k'"
    proof (intro allI impI)
      fix k' assume A: "k' \<notin> fst ` set (kv # kw) \<or> \<not> py_hasattr h (PRef a) k'"
      with True kv have ne: "k' \<noteq> k" by auto
      from A have "k' \<notin> fst ` set kw \<or> \<not> py_hasattr ?h1 (PRef a) k'"
        using has by auto
      with IH(7) have "py_getattr h' (PRef a) k' = py_getattr ?h1 (PRef a) k'" by blast
      with get ne show "py_getattr h' (PRef a) k' = py_getattr h (PRef a) k'" by simp
    qed
    from run len frame inst hasall set keep show ?thesis by blast
  qed
qed

lemma update_route_loop_no_attr:
  "\<forall>k \<in> set (map fst kw). \<not> py_hasattr h r k \<Longrightarrow> update_route_loop h r kw = Inr h"
  by (induction kw) auto

lemma map_of_Some_key: "map_of d k = Some v \<Longrightarrow> k \<in> fst ` set d"
  using map_of_eq_None_iff[of d k] by auto

lemma readable_hasattr: "readable h k r \<Longrightarrow> py_hasattr h r k"
  by (auto simp: readable_def py_hasattr_def py_getattr_def
      split: pyval.splits option.splits dest: map_of_Some_key)

lemma has_id_readable: "has_id h k n r \<Longrightarrow> readable h k r"
  by (auto simp: has_id_def readable_def split: sum.splits)

lemma hasattr_data_readable:
  "py_hasattr h (PRef a) k \<Longrightarrow> k \<notin> set (class_body c) \<Longrightarrow> k \<notin> set object_attrs \<Longrightarrow>
     py_isinstance h (PRef a) c \<Longrightarrow> readable h k (PRef a)"
  by (auto simp: readable_def py_hasattr_def py_getattr_def py_isinstance_def map_of_eq_None_iff
      split: option.splits)

text \<open>
  Claim C5. When \<open>read_route n\<close> finds \<open>r\<close>, \<open>update_route\<close> with the one keyword
  \<open>end_point\<close> succeeds and leaves the registry's lists as they are; in the heap every
  other object is untouched, no object changes its class, every attribute of \<open>r\<close> other
  than \<open>end_point\<close> (so \<open>route_id\<close>, \<open>number\<close>, \<open>start_point\<close>, \<open>vehicles\<close>) reads
  as before, and \<open>end_point\<close> reads as the new value. An update none of whose keys names
  an attribute of \<open>r\<close> leaves heap and registry unchanged (it returns normally unless a
  key is \<open>self\<close>, which collides with the method's parameter).
\<close>

theorem C5_update_route_frame:
  assumes "read_route h ts n = Inr r"
  shows "(\<exists>h'. update_route h ts n [(''end_point'', x)] = Inr (h', ts)
            \<and> length h' = length h
            \<and> (\<forall>b. PRef b \<noteq> r \<longrightarrow> heap_get h' b = heap_get h b)
            \<and> (\<forall>c y. py_isinstance h' y c = py_isinstance h y c)
            \<and> (\<forall>k. k \<noteq> ''end_point'' \<longrightarrow> py_getattr h' r k = py_getattr h r k)
            \<and> (readable h ''end_point'' r \<longrightarrow> py_getattr h' r ''end_point'' = Inr x))
         \<and> (list_all (\<lambda>k. \<not> py_hasattr h r k) (map fst kw) \<longrightarrow>
               state_after (update_route h ts n kw) = (h, ts)
               \<and> (''self'' \<notin> set (map fst kw) \<longrightarrow> update_route h ts n kw = Inr (h, ts)))"
proof -
  from read_route_ref[OF assms] obtain a obj where r: "r = PRef a" and g: "heap_get h a = Some obj"
    by blast
  have "\<exists>h'. update_route_loop h (PRef a) [(''end_point'', x)] = Inr h'
           \<and> length h' = length h
           \<and> (\<forall>b. b \<noteq> a \<longrightarrow> heap_get h' b = heap_get h b)
           \<and> (\<forall>c x. py_isinstance h' x c = py_isinstance h x c)
           \<and> (\<forall>k. py_hasattr h' (PRef a) k = py_hasattr h (PRef a) k)
           \<and> (\<forall>k v. (k, v) \<in> set [(''end_point'', x)] \<and> py_hasattr h (PRef a) k \<longrightarrow>
                 py_getattr h' (PRef a) k = Inr v)
           \<and> (\<forall>k. k \<notin> fst ` set [(''end_point'', x)] \<or> \<not> py_hasattr h (PRef a) k \<longrightarrow>
                 py_getattr h' (PRef a) k = py_getattr h (PRef a) k)"
    by (rule update_route_loop_plain[OF g]) (simp_all add: reserved_names_def)
  then obtain h' where L: "update_route_loop h (PRef a) [(''end_point'', x)] = Inr h'"
    "length h' = length h" "\<forall>b. b \<noteq> a \<longrightarrow> heap_get h' b = heap_get h b"
    "\<forall>c x. py_isinstance h' x c = py_isinstance h x c"
    "\<forall>v. py_hasattr h (PRef a) ''end_point'' \<longrightarrow> py_getattr h' (PRef a) ''end_point'' = Inr x"
    "\<forall>k. k \<noteq> ''end_point'' \<longrightarrow> py_getattr h' (PRef a) k = py_getattr h (PRef a) k"
    by auto
  have run: "update_route h ts n [(''end_point'', x)] = Inr (h', ts)"
    using assms L(1) r by (simp add: update_route_def)
  have first: "\<exists>h'. update_route h ts n [(''end_point'', x)] = Inr (h', ts)
            \<and> length h' = length h
            \<and> (\<forall>b. PRef b \<noteq> r \<longrightarrow> heap_get h' b = heap_get h b)
            \<and> (\<forall>c y. py_isinstance h' y c = py_isinstance h y c)
            \<and> (\<forall>k. k \<noteq> ''end_point'' \<longrightarrow> py_getattr h' r k = py_getattr h r k)
            \<and> (readable h ''end_point'' r \<longrightarrow> py_getattr h' r ''end_point'' = Inr x)"
    using run L(2-6) r readable_hasattr[of h "''end_point''" r] by (intro exI[of _ h']) auto
  have second: "state_after (update_route h ts n kw) = (h, ts)
               \<and> (''self'' \<notin> set (map fst kw) \<longrightarrow> update_route h ts n kw = Inr (h, ts))"
    if na: "list_all (\<lambda>k. \<not> py_hasattr h r k) (map fst kw)"
  proof -
    from na have no: "\<forall>k \<in> set (map fst kw). \<not> py_hasattr h r k" by (simp add: list_all_iff)
    then have loop: "update_route_loop h r kw = Inr h" by (rule update_route_loop_no_attr)
    from read_route_has_id[OF assms] have "py_hasattr h r ''route_id''"
      by (intro readable_hasattr has_id_readable)
    with no have nrid: "''route_id'' \<notin> set (map fst kw)" by blast
    show ?thesis
    proof (cases "''self'' \<in> set (map fst kw)")
      case True
      then have "filter (\<lambda>k. k = ''self'' \<or> k = ''route_id'') (map fst kw) \<noteq> []"
        by (force simp: filter_empty_conv)
      then show ?thesis using True
        by (auto simp: update_route_def state_after_def split: list.splits)
    next
      case False
      with nrid have "filter (\<lambda>k. k = ''self'' \<or> k = ''route_id'') (map fst kw) = []"
        by (force simp: filter_empty_conv)
      then show ?thesis using assms loop
        by (simp add: update_route_def state_after_def)
    qed
  qed
  from first second show ?thesis by blast
qed

theorem C5_witness:
  "read_route ex_heap ex_ts 1 = Inr (PRef 1)
   \<and> readable ex_heap ''end_point'' (PRef 1)
   \<and> list_all (\<lambda>k. \<not> py_hasattr ex_heap (PRef 1) k) (map fst [(''colour'', PStr ''red'')])
   \<and> update_route ex_heap ex_ts 1 [(''colour'', PStr ''red'')] = Inr (ex_heap, ex_ts)
   \<and> (\<exists>h'. update_route ex_heap ex_ts 1 [(''end_point'', PStr ''C'')] = Inr (h', ex_ts)
         \<and> py_getattr h' (PRef 1) ''end_point'' = Inr (PStr ''C'')
         \<and> py_getattr h' (PRef 1) ''number'' = Inr (PStr ''t77'')
         \<and> py_getattr h' (PRef 1) ''vehicles'' = Inr (PList [PRef 0])
         \<and> heap_get h' 0 = heap_get ex_heap 0)"
proof -
  have r: "read_route ex_heap ex_ts 1 = Inr (PRef 1)" by code_simp
  have e: "readable ex_heap ''end_point'' (PRef 1)" by code_simp
  have n: "list_all (\<lambda>k. \<not> py_hasattr ex_heap (PRef 1) k) (map fst [(''colour'', PStr ''red'')])"
    by code_simp
  have s: "''self'' \<notin> set (map fst [(''colour'', PStr ''red'')])" by simp
  have num: "py_getattr ex_heap (PRef 1) ''number'' = Inr (PStr ''t77'')" by code_simp
  have veh: "py_getattr ex_heap (PRef 1) ''vehicles'' = Inr (PList [PRef 0])" by code_simp
  note C = C5_update_route_frame[OF r, of "PStr ''C''" "[(''colour'', PStr ''red'')]"]
  from C n s have u: "update_route ex_heap ex_ts 1 [(''colour'', PStr ''red'')] = Inr (ex_heap, ex_ts)"
    by blast
  from C obtain h' where h':
    "update_route ex_heap ex_ts 1 [(''end_point'', PStr ''C'')] = Inr (h', ex_ts)"
    "\<forall>b. PRef b \<noteq> PRef 1 \<longrightarrow> heap_get h' b = heap_get ex_heap b"
    "\<forall>k. k \<noteq> ''end_point'' \<longrightarrow> py_getattr h' (PRef 1) k = py_getattr ex_heap (PRef 1) k"
    "readable ex_heap ''end_point'' (PRef 1) \<longrightarrow> py_getattr h' (PRef 1) ''end_point'' = Inr (PStr ''C'')"
    by blast
  from h'(3) num have 1: "py_getattr h' (PRef 1) ''number'' = Inr (PStr ''t77'')" by simp
  from h'(3) veh have 2: "py_getattr h' (PRef 1) ''vehicles'' = Inr (PList [PRef 0])" by simp
  from h'(2) have 3: "heap_get h' 0 = heap_get ex_heap 0" by simp
  from h'(4) e have 4: "py_getattr h' (PRef 1) ''end_point'' = Inr (PStr ''C'')" by simp
  from r e n u h'(1) 1 2 3 4 show ?thesis by blast
qed

text \<open>
  Against claim C9 as stated: \<open>route_id\<close> is an attribute of route 1, yet
  \<^verbatim>\<open>update_route(1, route_id=7)\<close> does not overwrite it. The keyword collides with the
  parameter \<open>route_id\<close> of the method, the call raises \<open>TypeError\<close>, and the route is
  still found under 1 and not under 7.
\<close>

theorem C9_counterexample:
  "read_route ex_heap ex_ts 1 = Inr (PRef 1)
   \<and> py_hasattr ex_heap (PRef 1) ''route_id''
   \<and> update_route ex_heap ex_ts 1 [(''route_id'', PInt 7)]
       = Inl (TypeError (MultipleValues ''route_id''), (ex_heap, ex_ts))
   \<and> py_getattr ex_heap (PRef 1) ''route_id'' = Inr (PInt 1)
   \<and> read_route ex_heap ex_ts 7 = Inl (RouteNotFoundError 7)"
  by code_simp

text \<open>
  Claim C9, amended. When \<open>read_route n\<close> finds \<open>r\<close> and the keywords (distinct, as
  the keys of a dict are) avoid the two parameter names and the three names \<open>setattr\<close>
  treats specially, \<open>update_route\<close> succeeds and every keyword that names an attribute of
  \<open>r\<close> reads as the given value afterwards, whatever that value is; this covers
  \<open>number\<close>, \<open>start_point\<close>, \<open>end_point\<close> and \<open>vehicles\<close>. Attributes not named
  and all other objects are untouched. A keyword \<open>route_id\<close> makes the call raise
  \<open>TypeError\<close> with heap and registry unchanged.
\<close>

theorem C9_update_route_overwrites:
  assumes "read_route h ts n = Inr r"
  shows "(distinct (map fst kw)
            \<and> list_all (\<lambda>k. k \<notin> set (''self'' # ''route_id'' # reserved_names)) (map fst kw) \<longrightarrow>
           (\<exists>h'. update_route h ts n kw = Inr (h', ts)
              \<and> (\<forall>k v. (k, v) \<in> set kw \<and> py_hasattr h r k \<longrightarrow> py_getattr h' r k = Inr v)
              \<and> (\<forall>k. k \<notin> fst ` set kw \<longrightarrow> py_getattr h' r k = py_getattr h r k)
              \<and> (\<forall>b. PRef b \<noteq> r \<longrightarrow> heap_get h' b = heap_get h b)))
         \<and> (''route_id'' \<in> set (map fst kw) \<longrightarrow>
              (\<exists>k. update_route h ts n kw = Inl (TypeError (MultipleValues k), (h, ts))))"
proof (intro conjI impI)
  assume A: "distinct (map fst kw)
            \<and> list_all (\<lambda>k. k \<notin> set (''self'' # ''route_id'' # reserved_names)) (map fst kw)"
  from read_route_ref[OF assms] obtain a obj where r: "r = PRef a" and g: "heap_get h a = Some obj"
    by blast
  from A have d: "distinct (map fst kw)" and res: "\<forall>k \<in> set (map fst kw). k \<notin> set reserved_names"
    and par: "\<forall>k \<in> set (map fst kw). k \<noteq> ''self'' \<and> k \<noteq> ''route_id''"
    by (auto simp: list_all_iff)
  from par have f: "filter (\<lambda>k. k = ''self'' \<or> k = ''route_id'') (map fst kw) = []"
    by (force simp: filter_empty_conv)
  from update_route_loop_plain[OF g d res] obtain h' where L:
    "update_route_loop h (PRef a) kw = Inr h'"
    "\<forall>b. b \<noteq> a \<longrightarrow> heap_get h' b = heap_get h b"
    "\<forall>k v. (k, v) \<in> set kw \<and> py_hasattr h (PRef a) k \<longrightarrow> py_getattr h' (PRef a) k = Inr v"
    "\<forall>k. k \<notin> fst ` set kw \<or> \<not> py_hasattr h (PRef a) k \<longrightarrow>
                 py_getattr h' (PRef a) k = py_getattr h (PRef a) k"
    by blast
  have "update_route h ts n kw = Inr (h', ts)"
    using assms f L(1) r by (simp add: update_route_def)
  with L(2-4) r show "\<exists>h'. update_route h ts n kw = Inr (h', ts)
              \<and> (\<forall>k v. (k, v) \<in> set kw \<and> py_hasattr h r k \<longrightarrow> py_getattr h' r k = Inr v)
              \<and> (\<forall>k. k \<notin> fst ` set kw \<longrightarrow> py_getattr h' r k = py_getattr h r k)
              \<and> (\<forall>b. PRef b \<noteq> r \<longrightarrow> heap_get h' b = heap_get h b)"
    by (intro exI[of _ h']) auto
next
  assume "''route_id'' \<in> set (map fst kw)"
  then have "filter (\<lambda>k. k = ''self'' \<or> k = ''route_id'') (map fst kw) \<noteq> []"
    by (force simp: filter_empty_conv)
  then show "\<exists>k. update_route h ts n kw = Inl (TypeError (MultipleValues k), (h, ts))"
    by (auto simp: update_route_def split: list.splits)
qed

theorem C9_witness:
  "read_route ex_heap ex_ts 1 = Inr (PRef 1)
   \<and> distinct (map fst [(''vehicles'', PInt 5), (''number'', PNone)])
   \<and> list_all (\<lambda>k. k \<notin> set (''self'' # ''route_id'' # reserved_names))
        (map fst [(''vehicles'', PInt 5), (''number'', PNone)])
   \<and> py_hasattr ex_heap (PRef 1) ''vehicles''
   \<and> py_hasattr ex_heap (PRef 1) ''number''
   \<and> (\<exists>h'. update_route ex_heap ex_ts 1 [(''vehicles'', PInt 5), (''number'', PNone)] = Inr (h', ex_ts)
         \<and> py_getattr h' (PRef 1) ''vehicles'' = Inr (PInt 5)
         \<and> py_getattr h' (PRef 1) ''number'' = Inr PNone
         \<and> py_getattr h' (PRef 1) ''route_id'' = Inr (PInt 1))
   \<and> ''route_id'' \<in> set (map fst [(''route_id'', PInt 7)])
   \<and> (\<exists>k. update_route ex_heap ex_ts 1 [(''route_id'', PInt 7)]
             = Inl (TypeError (MultipleValues k), (ex_heap, ex_ts)))"
proof -
  let ?kw = "[(''vehicles'', PInt 5), (''number'', PNone)]"
  have r: "read_route ex_heap ex_ts 1 = Inr (PRef 1)" by code_simp
  have d: "distinct (map fst ?kw)" by simp
  have l: "list_all (\<lambda>k. k \<notin> set (''self'' # ''route_id'' # reserved_names)) (map fst ?kw)"
    by (simp add: reserved_names_def)
  have hv: "py_hasattr ex_heap (PRef 1) ''vehicles''" by code_simp
  have hn: "py_hasattr ex_heap (PRef 1) ''number''" by code_simp
  have rid: "py_getattr ex_heap (PRef 1) ''route_id'' = Inr (PInt 1)" by code_simp
  from C9_update_route_overwrites[OF r, of ?kw] d l obtain h' where h':
    "update_route ex_heap ex_ts 1 ?kw = Inr (h', ex_ts)"
    "\<forall>k v. (k, v) \<in> set ?kw \<and> py_hasattr ex_heap (PRef 1) k \<longrightarrow> py_getattr h' (PRef 1) k = Inr v"
    "\<forall>k. k \<notin> fst ` set ?kw \<longrightarrow> py_getattr h' (PRef 1) k = py_getattr ex_heap (PRef 1) k"
    by blast
  from h'(2) hv have 1: "py_getattr h' (PRef 1) ''vehicles'' = Inr (PInt 5)" by simp
  from h'(2) hn have 2: "py_getattr h' (PRef 1) ''number'' = Inr PNone" by simp
  from h'(3) rid have 3: "py_getattr h' (PRef 1) ''route_id'' = Inr (PInt 1)" by simp
  have m: "''route_id'' \<in> set (map fst [(''route_id'', PInt 7)])" by simp
  from C9_update_route_overwrites[OF r, of "[(''route_id'', PInt 7)]"] m
  have 4: "\<exists>k. update_route ex_heap ex_ts 1 [(''route_id'', PInt 7)]
             = Inl (TypeError (MultipleValues k), (ex_heap, ex_ts))"
    by blast
  from r d l hv hn h'(1) 1 2 3 m 4 show ?thesis by blast
qed

section \<open>Removing a vehicle from a route\<close>








section \<open>Reconstruction from mappings\<close>

lemma heap_get_append:
  "heap_get (h @ ys) b = (if b < length h then heap_get h b else
      if b < length h + length ys then Some (ys ! (b - length h)) else None)"
  by (auto simp: heap_get_def nth_append)

lemma py_isinstance_valid:
  "py_isinstance h v c \<Longrightarrow> \<exists>b. v = PRef b \<and> b < length h"
  by (auto simp: py_isinstance_def heap_get_def split: pyval.splits option.splits if_splits)

lemma py_getattr_append:
  "py_isinstance h v c \<Longrightarrow> py_getattr (h @ ys) v k = py_getattr h v k"
  by (auto dest!: py_isinstance_valid simp: py_getattr_def heap_get_append)

lemma py_isinstance_append:
  "py_isinstance h v c \<Longrightarrow> py_isinstance (h @ ys) v c"
  by (frule py_isinstance_valid) (auto simp: py_isinstance_def heap_get_append)

lemma built_from_append:
  "built_from h c ks v data \<Longrightarrow> built_from (h @ ys) c ks v data"
  by (auto simp: built_from_def list_all_iff py_isinstance_append py_getattr_append)

lemma complete_getitem:
  "complete ks data \<Longrightarrow> k \<in> set ks \<Longrightarrow> \<exists>x. py_getitem data k = Inr x"
  by (cases data) (auto simp: complete_def list_all_iff)

lemma Vehicle_from_dict_complete:
  assumes "complete Vehicle_keys data"
  shows "\<exists>obj. Vehicle_from_dict h data = Inr (h @ [obj], length h)
           \<and> built_from (h @ [obj]) Vehicle Vehicle_keys (PRef (length h)) data"
proof -
  obtain a where a: "py_getitem data ''vehicle_id'' = Inr a"
    using complete_getitem[OF assms, of "''vehicle_id''"] by (auto simp: Vehicle_keys_def)
  obtain b where b: "py_getitem data ''model'' = Inr b"
    using complete_getitem[OF assms, of "''model''"] by (auto simp: Vehicle_keys_def)
  obtain c where c: "py_getitem data ''capacity'' = Inr c"
    using complete_getitem[OF assms, of "''capacity''"] by (auto simp: Vehicle_keys_def)
  obtain d where d: "py_getitem data ''type'' = Inr d"
    using complete_getitem[OF assms, of "''type''"] by (auto simp: Vehicle_keys_def)
  from a b c d show ?thesis
    by (simp add: Vehicle_from_dict_def alloc_def Vehicle_init_def built_from_def Vehicle_keys_def
        py_isinstance_def py_getattr_def heap_get_def)
qed

lemma Passenger_from_dict_complete:
  assumes "complete Passenger_keys data"
  shows "\<exists>obj. Passenger_from_dict h data = Inr (h @ [obj], length h)
           \<and> built_from (h @ [obj]) Passenger Passenger_keys (PRef (length h)) data"
proof -
  obtain a where a: "py_getitem data ''passenger_id'' = Inr a"
    using complete_getitem[OF assms, of "''passenger_id''"] by (auto simp: Passenger_keys_def)
  obtain b where b: "py_getitem data ''name'' = Inr b"
    using complete_getitem[OF assms, of "''name''"] by (auto simp: Passenger_keys_def)
  obtain c where c: "py_getitem data ''card_number'' = Inr c"
    using complete_getitem[OF assms, of "''card_number''"] by (auto simp: Passenger_keys_def)
  from a b c show ?thesis
    by (simp add: Passenger_from_dict_def alloc_def Passenger_init_def built_from_def
        Passenger_keys_def py_isinstance_def py_getattr_def heap_get_def)
qed

lemma Schedule_from_dict_complete:
  assumes "complete Schedule_keys data"
  shows "\<exists>obj. Schedule_from_dict h data = Inr (h @ [obj], length h)
           \<and> built_from (h @ [obj]) Schedule Schedule_keys (PRef (length h)) data"
proof -
  obtain a where a: "py_getitem data ''schedule_id'' = Inr a"
    using complete_getitem[OF assms, of "''schedule_id''"] by (auto simp: Schedule_keys_def)
  obtain b where b: "py_getitem data ''route_id'' = Inr b"
    using complete_getitem[OF assms, of "''route_id''"] by (auto simp: Schedule_keys_def)
  obtain c where c: "py_getitem data ''departure_time'' = Inr c"
    using complete_getitem[OF assms, of "''departure_time''"] by (auto simp: Schedule_keys_def)
  obtain d where d: "py_getitem data ''arrival_time'' = Inr d"
    using complete_getitem[OF assms, of "''arrival_time''"] by (auto simp: Schedule_keys_def)
  from a b c d show ?thesis
    by (simp add: Schedule_from_dict_def alloc_def Schedule_init_def built_from_def
        Schedule_keys_def py_isinstance_def py_getattr_def heap_get_def)
qed

lemma getitem_cases:
  "(\<exists>x. py_getitem (PDict d) k = Inr x \<and> k \<in> fst ` set d)
   \<or> (py_getitem (PDict d) k = Inl (KeyError k) \<and> k \<notin> fst ` set d)"
  using map_of_eq_None_iff[of d k] by (cases "map_of d k") auto

lemma Vehicle_from_dict_missing:
  assumes "k \<in> set Vehicle_keys" and "k \<notin> fst ` set d"
  shows "\<exists>k'. Vehicle_from_dict h (PDict d) = Inl (KeyError k') \<and> k' \<in> set Vehicle_keys
           \<and> k' \<notin> fst ` set d"
  using assms getitem_cases[of d "''vehicle_id''"] getitem_cases[of d "''model''"]
    getitem_cases[of d "''capacity''"] getitem_cases[of d "''type''"]
  by (elim disjE exE conjE) (auto simp: Vehicle_from_dict_def Vehicle_keys_def)

lemma Passenger_from_dict_missing:
  assumes "k \<in> set Passenger_keys" and "k \<notin> fst ` set d"
  shows "\<exists>k'. Passenger_from_dict h (PDict d) = Inl (KeyError k') \<and> k' \<in> set Passenger_keys
           \<and> k' \<notin> fst ` set d"
  using assms getitem_cases[of d "''passenger_id''"] getitem_cases[of d "''name''"]
    getitem_cases[of d "''card_number''"]
  by (elim disjE exE conjE) (auto simp: Passenger_from_dict_def Passenger_keys_def)

lemma Schedule_from_dict_missing:
  assumes "k \<in> set Schedule_keys" and "k \<notin> fst ` set d"
  shows "\<exists>k'. Schedule_from_dict h (PDict d) = Inl (KeyError k') \<and> k' \<in> set Schedule_keys
           \<and> k' \<notin> fst ` set d"
  using assms getitem_cases[of d "''schedule_id''"] getitem_cases[of d "''route_id''"]
    getitem_cases[of d "''departure_time''"] getitem_cases[of d "''arrival_time''"]
  by (elim disjE exE conjE) (auto simp: Schedule_from_dict_def Schedule_keys_def)

lemma Route_from_dict_missing:
  assumes "k \<in> set Route_keys" and "k \<notin> fst ` set d"
  shows "\<exists>k'. Route_from_dict h (PDict d) = Inl (KeyError k') \<and> k' \<in> set Route_keys
           \<and> k' \<notin> fst ` set d"
  using assms getitem_cases[of d "''route_id''"] getitem_cases[of d "''number''"]
    getitem_cases[of d "''start_point''"] getitem_cases[of d "''end_point''"]
  by (elim disjE exE conjE) (auto simp: Route_from_dict_def Route_keys_def)

lemma heap_get_Some_length: "heap_get h a = Some obj \<Longrightarrow> a < length h"
  by (auto simp: heap_get_def split: if_splits)

lemma built_from_heap_get:
  "heap_get h' b = heap_get h b \<Longrightarrow>
     built_from h' c ks (PRef b) data = built_from h c ks (PRef b) data"
  by (simp add: built_from_def py_isinstance_def py_getattr_def)

lemma built_from_valid: "built_from h c ks v data \<Longrightarrow> \<exists>b. v = PRef b \<and> b < length h"
  by (auto simp: built_from_def dest: py_isinstance_valid)

lemma Route_from_dict_loop_step:
  assumes "heap_get H a = Some robj" and "map_of (attrs robj) ''vehicles'' = Some (PList acc)"
    and "complete Vehicle_keys vd"
  shows "\<exists>vobj. Route_from_dict_loop H a (vd # rest) =
            Route_from_dict_loop (set_attr (H @ [vobj]) a ''vehicles'' (PList (acc @ [PRef (length H)]))) a rest
          \<and> built_from (H @ [vobj]) Vehicle Vehicle_keys (PRef (length H)) vd"
proof -
  from Vehicle_from_dict_complete[OF assms(3), of H] obtain vobj where
    v: "Vehicle_from_dict H vd = Inr (H @ [vobj], length H)"
    and b: "built_from (H @ [vobj]) Vehicle Vehicle_keys (PRef (length H)) vd"
    by blast
  from assms(1) have a: "a < length H" by (rule heap_get_Some_length)
  with assms(1) have g: "heap_get (H @ [vobj]) a = Some robj" by (simp add: heap_get_append)
  from g assms(2) have l: "py_getattr (H @ [vobj]) (PRef a) ''vehicles'' = Inr (PList acc)"
    by (simp add: py_getattr_def)
  from b have i: "py_isinstance (H @ [vobj]) (PRef (length H)) Vehicle"
    by (simp add: built_from_def)
  have "Route_add_vehicle (H @ [vobj]) a (PRef (length H)) =
          Inr (set_attr (H @ [vobj]) a ''vehicles'' (PList (acc @ [PRef (length H)])))"
    using i l by (simp add: Route_add_vehicle_def)
  with v b show ?thesis by (intro exI[of _ vobj]) simp
qed

lemma Route_from_dict_loop_ok:
  assumes "heap_get H a = Some robj" and "map_of (attrs robj) ''vehicles'' = Some (PList acc)"
    and "\<forall>vd \<in> set vds. complete Vehicle_keys vd"
  shows "\<exists>H'. Route_from_dict_loop H a vds = Inr H'
     \<and> length H' = length H + length vds
     \<and> (\<forall>b. b < length H \<and> b \<noteq> a \<longrightarrow> heap_get H' b = heap_get H b)
     \<and> (\<exists>robj'. heap_get H' a = Some robj' \<and> cls_of robj' = cls_of robj
           \<and> (\<forall>k. k \<noteq> ''vehicles'' \<longrightarrow> map_of (attrs robj') k = map_of (attrs robj) k)
           \<and> map_of (attrs robj') ''vehicles''
                = Some (PList (acc @ map PRef [length H..<length H + length vds])))
     \<and> (\<forall>i<length vds. built_from H' Vehicle Vehicle_keys (PRef (length H + i)) (vds ! i))"
  using assms
proof (induction vds arbitrary: H robj acc)
  case Nil
  then show ?case by simp
next
  case (Cons vd rest)
  from Cons.prems(3) have cvd: "complete Vehicle_keys vd"
    and crest: "\<forall>vd \<in> set rest. complete Vehicle_keys vd" by auto
  from Cons.prems(1) have a: "a < length H" by (rule heap_get_Some_length)
  from Route_from_dict_loop_step[OF Cons.prems(1,2) cvd, of rest] obtain vobj where
    step: "Route_from_dict_loop H a (vd # rest) =
            Route_from_dict_loop (set_attr (H @ [vobj]) a ''vehicles'' (PList (acc @ [PRef (length H)]))) a rest"
    and b0: "built_from (H @ [vobj]) Vehicle Vehicle_keys (PRef (length H)) vd"
    by blast
  let ?H1 = "set_attr (H @ [vobj]) a ''vehicles'' (PList (acc @ [PRef (length H)]))"
  let ?r1 = "robj\<lparr>attrs := AList.update ''vehicles'' (PList (acc @ [PRef (length H)])) (attrs robj)\<rparr>"
  have g0: "heap_get (H @ [vobj]) a = Some robj"
    using Cons.prems(1) a by (simp add: heap_get_append)
  have g1: "heap_get ?H1 a = Some ?r1"
    using g0 by (simp add: heap_get_set_attr)
  have m1: "map_of (attrs ?r1) ''vehicles'' = Some (PList (acc @ [PRef (length H)]))"
    by (simp add: update_conv')
  have len1: "length ?H1 = length H + 1" by simp
  from Cons.IH[OF g1 m1 crest] obtain H' robj' where IH:
    "Route_from_dict_loop ?H1 a rest = Inr H'"
    "length H' = length ?H1 + length rest"
    "\<forall>b. b < length ?H1 \<and> b \<noteq> a \<longrightarrow> heap_get H' b = heap_get ?H1 b"
    "heap_get H' a = Some robj'" "cls_of robj' = cls_of ?r1"
    "\<forall>k. k \<noteq> ''vehicles'' \<longrightarrow> map_of (attrs robj') k = map_of (attrs ?r1) k"
    "map_of (attrs robj') ''vehicles''
        = Some (PList ((acc @ [PRef (length H)]) @ map PRef [length ?H1..<length ?H1 + length rest]))"
    "\<forall>i<length rest. built_from H' Vehicle Vehicle_keys (PRef (length ?H1 + i)) (rest ! i)"
    by blast
  have run: "Route_from_dict_loop H a (vd # rest) = Inr H'"
    using step IH(1) by simp
  have len: "length H' = length H + length (vd # rest)"
    using IH(2) by simp
  have old: "heap_get ?H1 b = heap_get H b" if "b < length H" "b \<noteq> a" for b
    using that by (simp add: heap_get_set_attr heap_get_append)
  have frame: "\<forall>b. b < length H \<and> b \<noteq> a \<longrightarrow> heap_get H' b = heap_get H b"
    using IH(3) old by auto
  have upt: "[length H..<length H + length (vd # rest)]
               = length H # [length H + 1..<length H + 1 + length rest]"
  proof -
    have "length H < length H + length (vd # rest)" by simp
    from upt_conv_Cons[OF this] show ?thesis by simp
  qed
  have route: "\<exists>robj'. heap_get H' a = Some robj' \<and> cls_of robj' = cls_of robj
           \<and> (\<forall>k. k \<noteq> ''vehicles'' \<longrightarrow> map_of (attrs robj') k = map_of (attrs robj) k)
           \<and> map_of (attrs robj') ''vehicles''
                = Some (PList (acc @ map PRef [length H..<length H + length (vd # rest)]))"
    using IH(4,5,6,7) upt by (intro exI[of _ robj']) (simp add: update_conv')
  have new0: "heap_get H' (length H) = heap_get (H @ [vobj]) (length H)"
  proof -
    have "heap_get H' (length H) = heap_get ?H1 (length H)"
      using IH(3) a by simp
    also have "\<dots> = heap_get (H @ [vobj]) (length H)"
      using a by (simp add: heap_get_set_attr)
    finally show ?thesis .
  qed
  have built: "\<forall>i<length (vd # rest).
      built_from H' Vehicle Vehicle_keys (PRef (length H + i)) ((vd # rest) ! i)"
  proof (intro allI impI)
    fix i assume i: "i < length (vd # rest)"
    show "built_from H' Vehicle Vehicle_keys (PRef (length H + i)) ((vd # rest) ! i)"
    proof (cases i)
      case 0
      with b0 built_from_heap_get[OF new0] show ?thesis by simp
    next
      case (Suc j)
      with i IH(8) show ?thesis by simp
    qed
  qed
  from run len frame route built show ?case by blast
qed

lemma heap_prefixI:
  assumes "length h \<le> length H" and "\<forall>b<length h. heap_get H b = heap_get h b"
  shows "H = h @ drop (length h) H"
proof -
  have "take (length h) H = h"
  proof (rule nth_equalityI)
    show "length (take (length h) H) = length h" using assms(1) by simp
  next
    fix i assume "i < length (take (length h) H)"
    then have i: "i < length h" by simp
    with assms have "heap_get H i = heap_get h i" by blast
    with i assms(1) show "take (length h) H ! i = h ! i" by (simp add: heap_get_def)
  qed
  then show ?thesis by (metis append_take_drop_id)
qed

lemma nested_vehicles_dict:
  "nested_vehicles h (PDict d) = nested_vehicles h' (PDict d)"
  by (simp add: nested_vehicles_def py_get_def)

lemma complete_dict: "complete ks data \<Longrightarrow> \<exists>d. data = PDict d"
  by (cases data) (auto simp: complete_def)

lemma Route_from_dict_unfold:
  assumes "complete Route_keys data"
  shows "\<exists>r0. Route_from_dict h data =
           bindE (nested_vehicles h data) (\<lambda>xs.
             bindE (Route_from_dict_loop (h @ [r0]) (length h) xs) (\<lambda>h2. Inr (h2, length h)))
         \<and> cls_of r0 = Route
         \<and> map_of (attrs r0) ''vehicles'' = Some (PList [])
         \<and> (\<forall>k \<in> set Route_keys. \<exists>x. map_of (attrs r0) k = Some x \<and> py_getitem data k = Inr x)"
proof -
  from complete_dict[OF assms] obtain d where d: "data = PDict d" by blast
  obtain a where a: "py_getitem data ''route_id'' = Inr a"
    using complete_getitem[OF assms, of "''route_id''"] by (auto simp: Route_keys_def)
  obtain b where b: "py_getitem data ''number'' = Inr b"
    using complete_getitem[OF assms, of "''number''"] by (auto simp: Route_keys_def)
  obtain c where c: "py_getitem data ''start_point'' = Inr c"
    using complete_getitem[OF assms, of "''start_point''"] by (auto simp: Route_keys_def)
  obtain e where e: "py_getitem data ''end_point'' = Inr e"
    using complete_getitem[OF assms, of "''end_point''"] by (auto simp: Route_keys_def)
  have n: "py_get (h @ [Route_init a b c e]) data ''vehicles'' (PList [])
             = py_get h data ''vehicles'' (PList [])"
    by (simp add: d py_get_def)
  have run: "Route_from_dict h data =
           bindE (nested_vehicles h data) (\<lambda>xs.
             bindE (Route_from_dict_loop (h @ [Route_init a b c e]) (length h) xs)
               (\<lambda>h2. Inr (h2, length h)))"
    using a b c e
    by (cases "py_get h data ''vehicles'' (PList [])")
      (simp_all add: Route_from_dict_def alloc_def n nested_vehicles_def)
  have keys: "\<forall>k \<in> set Route_keys. \<exists>x. map_of (attrs (Route_init a b c e)) k = Some x
                \<and> py_getitem data k = Inr x"
    using a b c e by (simp add: Route_init_def Route_keys_def)
  show ?thesis
    using run keys by (intro exI[of _ "Route_init a b c e"]) (simp add: Route_init_def)
qed

lemma list_all2_upt_refs:
  "\<forall>i<length ys. P (PRef (n + i)) (ys ! i) \<Longrightarrow> list_all2 P (map PRef [n..<n + length ys]) ys"
  by (simp add: list_all2_conv_all_nth)

lemma Route_from_dict_ok:
  assumes "complete Route_keys data" and "nested_vehicles h data = Inr vds"
    and "\<forall>vd \<in> set vds. complete Vehicle_keys vd"
  shows "\<exists>ys. Route_from_dict h data = Inr (h @ ys, length h) \<and> length ys = 1 + length vds
           \<and> route_built_from (h @ ys) (PRef (length h)) data"
proof -
  from Route_from_dict_unfold[OF assms(1), of h] obtain r0 where
    unf: "Route_from_dict h data =
           bindE (nested_vehicles h data) (\<lambda>xs.
             bindE (Route_from_dict_loop (h @ [r0]) (length h) xs) (\<lambda>h2. Inr (h2, length h)))"
    and c0: "cls_of r0 = Route" and v0: "map_of (attrs r0) ''vehicles'' = Some (PList [])"
    and k0: "\<forall>k \<in> set Route_keys. \<exists>x. map_of (attrs r0) k = Some x \<and> py_getitem data k = Inr x"
    by blast
  let ?H = "h @ [r0]"
  have g0: "heap_get ?H (length h) = Some r0" by (simp add: heap_get_append)
  from Route_from_dict_loop_ok[OF g0 v0 assms(3)] obtain H' robj' where L:
    "Route_from_dict_loop ?H (length h) vds = Inr H'"
    "length H' = length ?H + length vds"
    "\<forall>b. b < length ?H \<and> b \<noteq> length h \<longrightarrow> heap_get H' b = heap_get ?H b"
    "heap_get H' (length h) = Some robj'" "cls_of robj' = cls_of r0"
    "\<forall>k. k \<noteq> ''vehicles'' \<longrightarrow> map_of (attrs robj') k = map_of (attrs r0) k"
    "map_of (attrs robj') ''vehicles'' = Some (PList ([] @ map PRef [length ?H..<length ?H + length vds]))"
    "\<forall>i<length vds. built_from H' Vehicle Vehicle_keys (PRef (length ?H + i)) (vds ! i)"
    by blast
  have run: "Route_from_dict h data = Inr (H', length h)"
    using unf assms(2) L(1) by simp
  have pre: "\<forall>b<length h. heap_get H' b = heap_get h b"
    using L(3) by (simp add: heap_get_append)
  have H': "H' = h @ drop (length h) H'"
    using L(2) pre by (intro heap_prefixI) simp_all
  have len: "length (drop (length h) H') = 1 + length vds" using L(2) by simp
  have inst: "py_isinstance H' (PRef (length h)) Route"
    using L(4,5) c0 by (simp add: py_isinstance_def)
  have keys: "list_all (\<lambda>k. py_getattr H' (PRef (length h)) k = py_getitem data k) Route_keys"
    unfolding list_all_iff
  proof
    fix k assume k: "k \<in> set Route_keys"
    then have "k \<noteq> ''vehicles''" by (auto simp: Route_keys_def)
    with L(6) have "map_of (attrs robj') k = map_of (attrs r0) k" by simp
    moreover from k0 k obtain x where "map_of (attrs r0) k = Some x" "py_getitem data k = Inr x"
      by blast
    ultimately show "py_getattr H' (PRef (length h)) k = py_getitem data k"
      using L(4) by (simp add: py_getattr_def)
  qed
  have vs: "py_getattr H' (PRef (length h)) ''vehicles''
              = Inr (PList (map PRef [length ?H..<length ?H + length vds]))"
    using L(4,7) by (simp add: py_getattr_def)
  from complete_dict[OF assms(1)] obtain d where d: "data = PDict d" by blast
  have nv: "nested_vehicles H' data = Inr vds"
    using assms(2) nested_vehicles_dict[of H' d h] d by simp
  have all2: "list_all2 (built_from H' Vehicle Vehicle_keys)
                (map PRef [length ?H..<length ?H + length vds]) vds"
    using L(8) by (rule list_all2_upt_refs)
  have "route_built_from H' (PRef (length h)) data"
    using inst keys vs nv all2 by (simp add: route_built_from_def built_from_def)
  with run H' len show ?thesis by (intro exI[of _ "drop (length h) H'"]) simp
qed

lemma Route_from_dict_loop_fail:
  assumes "heap_get H a = Some robj" and "map_of (attrs robj) ''vehicles'' = Some (PList acc)"
    and "\<forall>vd \<in> set pre. complete Vehicle_keys vd"
    and "k \<in> set Vehicle_keys" and "k \<notin> fst ` set dv"
  shows "\<exists>k'. Route_from_dict_loop H a (pre @ PDict dv # post) = Inl (KeyError k')
           \<and> k' \<in> set Vehicle_keys \<and> k' \<notin> fst ` set dv"
  using assms(1,2,3)
proof (induction pre arbitrary: H robj acc)
  case Nil
  from Vehicle_from_dict_missing[OF assms(4,5), of H] show ?case by auto
next
  case (Cons vd pre)
  from Cons.prems(3) have cvd: "complete Vehicle_keys vd"
    and cpre: "\<forall>vd \<in> set pre. complete Vehicle_keys vd" by auto
  from Cons.prems(1) have a: "a < length H" by (rule heap_get_Some_length)
  from Route_from_dict_loop_step[OF Cons.prems(1,2) cvd, of "pre @ PDict dv # post"] obtain vobj where
    step: "Route_from_dict_loop H a (vd # pre @ PDict dv # post) =
            Route_from_dict_loop (set_attr (H @ [vobj]) a ''vehicles'' (PList (acc @ [PRef (length H)]))) a
              (pre @ PDict dv # post)"
    by blast
  let ?H1 = "set_attr (H @ [vobj]) a ''vehicles'' (PList (acc @ [PRef (length H)]))"
  let ?r1 = "robj\<lparr>attrs := AList.update ''vehicles'' (PList (acc @ [PRef (length H)])) (attrs robj)\<rparr>"
  have g1: "heap_get ?H1 a = Some ?r1"
    using Cons.prems(1) a by (simp add: heap_get_set_attr heap_get_append)
  have m1: "map_of (attrs ?r1) ''vehicles'' = Some (PList (acc @ [PRef (length H)]))"
    by (simp add: update_conv')
  from Cons.IH[OF g1 m1 cpre] step show ?case by simp
qed

lemma Route_from_dict_nested_missing:
  assumes "complete Route_keys data" and "nested_vehicles h data = Inr (pre @ PDict dv # post)"
    and "\<forall>vd \<in> set pre. complete Vehicle_keys vd"
    and "k \<in> set Vehicle_keys" and "k \<notin> fst ` set dv"
  shows "\<exists>k'. Route_from_dict h data = Inl (KeyError k')
           \<and> k' \<in> set Vehicle_keys \<and> k' \<notin> fst ` set dv"
proof -
  from Route_from_dict_unfold[OF assms(1), of h] obtain r0 where
    unf: "Route_from_dict h data =
           bindE (nested_vehicles h data) (\<lambda>xs.
             bindE (Route_from_dict_loop (h @ [r0]) (length h) xs) (\<lambda>h2. Inr (h2, length h)))"
    and v0: "map_of (attrs r0) ''vehicles'' = Some (PList [])"
    by blast
  have g0: "heap_get (h @ [r0]) (length h) = Some r0" by (simp add: heap_get_append)
  from Route_from_dict_loop_fail[OF g0 v0 assms(3,4,5), of post] unf assms(2)
  show ?thesis by auto
qed

text \<open>
  Claim C8. For each of the four classes, \<open>from_dict\<close> on a mapping that lacks one of
  the keys it reads raises \<open>KeyError\<close> for a key of that class that the mapping lacks
  (the first one in reading order). \<open>Route.from_dict\<close> on a mapping with its four keys
  whose nested vehicle mappings are complete allocates the route and one vehicle per
  nested mapping after the objects already in the heap, and the new route is built from
  the mapping: its four attributes are the mapping's entries and its vehicle list holds,
  in order, a \<open>Vehicle\<close> built from each nested mapping. A nested mapping that lacks a
  vehicle key makes \<open>Route.from_dict\<close> raise \<open>KeyError\<close> as well.
\<close>

theorem C8_from_dict_missing_key:
  "(k \<in> set Vehicle_keys \<and> k \<notin> fst ` set d \<longrightarrow>
      (\<exists>k'. Vehicle_from_dict h (PDict d) = Inl (KeyError k') \<and> k' \<in> set Vehicle_keys
         \<and> k' \<notin> fst ` set d))
   \<and> (k \<in> set Route_keys \<and> k \<notin> fst ` set d \<longrightarrow>
      (\<exists>k'. Route_from_dict h (PDict d) = Inl (KeyError k') \<and> k' \<in> set Route_keys
         \<and> k' \<notin> fst ` set d))
   \<and> (k \<in> set Passenger_keys \<and> k \<notin> fst ` set d \<longrightarrow>
      (\<exists>k'. Passenger_from_dict h (PDict d) = Inl (KeyError k') \<and> k' \<in> set Passenger_keys
         \<and> k' \<notin> fst ` set d))
   \<and> (k \<in> set Schedule_keys \<and> k \<notin> fst ` set d \<longrightarrow>
      (\<exists>k'. Schedule_from_dict h (PDict d) = Inl (KeyError k') \<and> k' \<in> set Schedule_keys
         \<and> k' \<notin> fst ` set d))
   \<and> (complete Route_keys data \<and> nested_vehicles h data = Inr vds
        \<and> list_all (complete Vehicle_keys) vds \<longrightarrow>
      (\<exists>ys. Route_from_dict h data = Inr (h @ ys, length h) \<and> length ys = 1 + length vds
         \<and> route_built_from (h @ ys) (PRef (length h)) data))
   \<and> (complete Route_keys data \<and> nested_vehicles h data = Inr (pre @ PDict dv # post)
        \<and> list_all (complete Vehicle_keys) pre \<and> k \<in> set Vehicle_keys \<and> k \<notin> fst ` set dv \<longrightarrow>
      (\<exists>k'. Route_from_dict h data = Inl (KeyError k') \<and> k' \<in> set Vehicle_keys
         \<and> k' \<notin> fst ` set dv))"
proof (intro conjI impI)
  assume "k \<in> set Vehicle_keys \<and> k \<notin> fst ` set d"
  then show "\<exists>k'. Vehicle_from_dict h (PDict d) = Inl (KeyError k') \<and> k' \<in> set Vehicle_keys
         \<and> k' \<notin> fst ` set d"
    using Vehicle_from_dict_missing by blast
next
  assume "k \<in> set Route_keys \<and> k \<notin> fst ` set d"
  then show "\<exists>k'. Route_from_dict h (PDict d) = Inl (KeyError k') \<and> k' \<in> set Route_keys
         \<and> k' \<notin> fst ` set d"
    using Route_from_dict_missing by blast
next
  assume "k \<in> set Passenger_keys \<and> k \<notin> fst ` set d"
  then show "\<exists>k'. Passenger_from_dict h (PDict d) = Inl (KeyError k') \<and> k' \<in> set Passenger_keys
         \<and> k' \<notin> fst ` set d"
    using Passenger_from_dict_missing by blast
next
  assume "k \<in> set Schedule_keys \<and> k \<notin> fst ` set d"
  then show "\<exists>k'. Schedule_from_dict h (PDict d) = Inl (KeyError k') \<and> k' \<in> set Schedule_keys
         \<and> k' \<notin> fst ` set d"
    using Schedule_from_dict_missing by blast
next
  assume A: "complete Route_keys data \<and> nested_vehicles h data = Inr vds
        \<and> list_all (complete Vehicle_keys) vds"
  then have "\<forall>vd \<in> set vds. complete Vehicle_keys vd" by (simp add: list_all_iff)
  with A show "\<exists>ys. Route_from_dict h data = Inr (h @ ys, length h) \<and> length ys = 1 + length vds
         \<and> route_built_from (h @ ys) (PRef (length h)) data"
    using Route_from_dict_ok by blast
next
  assume A: "complete Route_keys data \<and> nested_vehicles h data = Inr (pre @ PDict dv # post)
        \<and> list_all (complete Vehicle_keys) pre \<and> k \<in> set Vehicle_keys \<and> k \<notin> fst ` set dv"
  then have "\<forall>vd \<in> set pre. complete Vehicle_keys vd" by (simp add: list_all_iff)
  with A show "\<exists>k'. Route_from_dict h data = Inl (KeyError k') \<and> k' \<in> set Vehicle_keys
         \<and> k' \<notin> fst ` set dv"
    using Route_from_dict_nested_missing by blast
qed

theorem C8_witness:
  "''type'' \<in> set Vehicle_keys \<and> ''type'' \<notin> fst ` set [(''vehicle_id'', PInt 1)]
   \<and> Vehicle_from_dict [] (PDict [(''vehicle_id'', PInt 1)]) = Inl (KeyError ''model'')
   \<and> complete Route_keys ex_route_dict
   \<and> nested_vehicles [] ex_route_dict = Inr [ex_vehicle_dict]
   \<and> list_all (complete Vehicle_keys) [ex_vehicle_dict]
   \<and> (\<exists>ys. Route_from_dict [] ex_route_dict = Inr ([] @ ys, length ([] :: heap))
         \<and> length ys = 1 + length [ex_vehicle_dict]
         \<and> route_built_from ([] @ ys) (PRef (length ([] :: heap))) ex_route_dict)"
proof -
  have 1: "''type'' \<in> set Vehicle_keys \<and> ''type'' \<notin> fst ` set [(''vehicle_id'', PInt 1)]"
    by (simp add: Vehicle_keys_def)
  have 2: "Vehicle_from_dict [] (PDict [(''vehicle_id'', PInt 1)]) = Inl (KeyError ''model'')"
    by code_simp
  have 3: "complete Route_keys ex_route_dict" by code_simp
  have 4: "nested_vehicles [] ex_route_dict = Inr [ex_vehicle_dict]" by code_simp
  have 5: "list_all (complete Vehicle_keys) [ex_vehicle_dict]" by code_simp
  from C8_from_dict_missing_key[of _ _ "[]" ex_route_dict "[ex_vehicle_dict]"] 3 4 5
  have 6: "\<exists>ys. Route_from_dict [] ex_route_dict = Inr ([] @ ys, length ([] :: heap))
         \<and> length ys = 1 + length [ex_vehicle_dict]
         \<and> route_built_from ([] @ ys) (PRef (length ([] :: heap))) ex_route_dict"
    by blast
  from C8_from_dict_missing_key[of "''type''" "[(''vehicle_id'', PInt 1)]" "[]"] 1
  have "\<exists>k'. Vehicle_from_dict [] (PDict [(''vehicle_id'', PInt 1)]) = Inl (KeyError k')"
    by blast
  with 2 have 7: "Vehicle_from_dict [] (PDict [(''vehicle_id'', PInt 1)]) = Inl (KeyError ''model'')"
    by simp
  from 1 7 3 4 5 6 show ?thesis by blast
qed

section \<open>Loading a document\<close>







lemma nested_vehicles_complete:
  "complete ks data \<Longrightarrow> nested_vehicles h data = nested_vehicles h' data"
  by (auto dest!: complete_dict simp: nested_vehicles_dict)


lemma route_doc_from_dict:
  assumes "route_doc data"
  shows "\<exists>ys. Route_from_dict h data = Inr (h @ ys, length h)
           \<and> route_built_from (h @ ys) (PRef (length h)) data"
proof -
  from assms have c: "complete Route_keys data" by (simp add: route_doc_def)
  from assms obtain vds where n: "nested_vehicles [] data = Inr vds"
    and v: "\<forall>vd \<in> set vds. complete Vehicle_keys vd"
    by (auto simp: route_doc_def list_all_iff split: sum.splits)
  from n nested_vehicles_complete[OF c, of h "[]"] have "nested_vehicles h data = Inr vds" by simp
  from Route_from_dict_ok[OF c this v] show ?thesis by blast
qed

text \<open>What is built stays built when the heap grows.\<close>

lemma built_from_dict: "built_from h c (k # ks) v data \<Longrightarrow> \<exists>d. data = PDict d"
  by (cases data)
    (auto simp: built_from_def py_getattr_def split: pyval.splits option.splits)

lemma list_all2_built_from_append:
  "list_all2 (built_from h c ks) vs ds \<Longrightarrow> list_all2 (built_from (h @ ys) c ks) vs ds"
  by (erule list_all2_mono) (rule built_from_append)

lemma route_built_from_iff:
  "route_built_from h r data \<longleftrightarrow>
     built_from h Route Route_keys r data \<and>
     (\<exists>vs vds. py_getattr h r ''vehicles'' = Inr (PList vs) \<and> nested_vehicles h data = Inr vds
        \<and> list_all2 (built_from h Vehicle Vehicle_keys) vs vds)"
  unfolding route_built_from_def
  by (cases "py_getattr h r ''vehicles''"; cases "nested_vehicles h data")
    (auto split: pyval.splits)

lemma route_built_from_append:
  assumes "route_built_from h r data"
  shows "route_built_from (h @ ys) r data"
proof -
  from assms have b: "built_from h Route Route_keys r data" by (simp add: route_built_from_iff)
  then have i: "py_isinstance h r Route" by (simp add: built_from_def)
  from b have "built_from h Route (''route_id'' # [''number'', ''start_point'', ''end_point'']) r data"
    by (simp add: Route_keys_def)
  from built_from_dict[OF this] obtain d where d: "data = PDict d" by blast
  from assms obtain vs vds where
    v: "py_getattr h r ''vehicles'' = Inr (PList vs)" and n: "nested_vehicles h data = Inr vds"
    and a: "list_all2 (built_from h Vehicle Vehicle_keys) vs vds"
    unfolding route_built_from_iff by blast
  have "py_getattr (h @ ys) r ''vehicles'' = Inr (PList vs)"
    using v i by (simp add: py_getattr_append)
  moreover have "nested_vehicles (h @ ys) data = Inr vds"
    using n d nested_vehicles_dict[of "h @ ys" d h] by simp
  ultimately show ?thesis
    using built_from_append[OF b, of ys] list_all2_built_from_append[OF a, of ys]
    unfolding route_built_from_iff by blast
qed

text \<open>The comprehension over a list of mappings.\<close>

lemma from_dict_list_ok:
  assumes "\<And>h d. d \<in> set ds \<Longrightarrow> \<exists>ys. f h d = Inr (h @ ys, length h) \<and> P (h @ ys) (PRef (length h)) d"
    and "\<And>h ys v d. P h v d \<Longrightarrow> P (h @ ys) v d"
  shows "\<exists>ys vs. from_dict_list f h ds = Inr (h @ ys, vs) \<and> list_all2 (P (h @ ys)) vs ds"
  using assms(1)
proof (induction ds arbitrary: h)
  case Nil
  then show ?case by (intro exI[of _ "[]"]) simp
next
  case (Cons d ds)
  from Cons.prems[of d h] obtain ys1 where
    f: "f h d = Inr (h @ ys1, length h)" and p: "P (h @ ys1) (PRef (length h)) d"
    by auto
  have "\<And>h d. d \<in> set ds \<Longrightarrow> \<exists>ys. f h d = Inr (h @ ys, length h) \<and> P (h @ ys) (PRef (length h)) d"
    using Cons.prems by simp
  from Cons.IH[OF this, of "h @ ys1"] obtain ys2 vs where
    r: "from_dict_list f (h @ ys1) ds = Inr ((h @ ys1) @ ys2, vs)"
    and a: "list_all2 (P ((h @ ys1) @ ys2)) vs ds"
    by blast
  from assms(2)[OF p, of ys2] have "P ((h @ ys1) @ ys2) (PRef (length h)) d" .
  with f r a show ?case
    by (intro exI[of _ "ys1 @ ys2"] exI[of _ "PRef (length h) # vs"]) simp
qed



lemma load_collection_doc_list:
  "load_collection f h data key = bindE (doc_list h data key) (from_dict_list f h)"
  by (cases "py_get h data key (PList [])") (simp_all add: load_collection_def doc_list_def)




lemma load_collection_ok:
  assumes "doc_list h data key = Inr ds" and "\<forall>d \<in> set ds. Q d"
    and "\<And>h d. Q d \<Longrightarrow> \<exists>ys. f h d = Inr (h @ ys, length h) \<and> P (h @ ys) (PRef (length h)) d"
    and "\<And>h ys v d. P h v d \<Longrightarrow> P (h @ ys) v d"
  shows "\<exists>ys vs. load_collection f h data key = Inr (h @ ys, vs) \<and> list_all2 (P (h @ ys)) vs ds"
proof -
  have "\<exists>ys vs. from_dict_list f h ds = Inr (h @ ys, vs) \<and> list_all2 (P (h @ ys)) vs ds"
    using assms(2,3) by (intro from_dict_list_ok assms(4)) blast+
  then show ?thesis using assms(1) by (simp add: load_collection_doc_list)
qed






lemma load_routes_ok:
  assumes "doc_list h data key = Inr ds" and "\<forall>d \<in> set ds. route_doc d"
  shows "\<exists>ys vs. load_collection Route_from_dict h data key = Inr (h @ ys, vs)
           \<and> list_all2 (route_built_from (h @ ys)) vs ds"
  by (rule load_collection_ok[OF assms])
    (erule route_doc_from_dict, erule route_built_from_append)

lemma load_passengers_ok:
  assumes "doc_list h data key = Inr ds" and "\<forall>d \<in> set ds. complete Passenger_keys d"
  shows "\<exists>ys vs. load_collection Passenger_from_dict h data key = Inr (h @ ys, vs)
           \<and> list_all2 (built_from (h @ ys) Passenger Passenger_keys) vs ds"
  by (rule load_collection_ok[OF assms, where P = "\<lambda>h. built_from h Passenger Passenger_keys"])
    (use Passenger_from_dict_complete in blast, erule built_from_append)

lemma load_schedules_ok:
  assumes "doc_list h data key = Inr ds" and "\<forall>d \<in> set ds. complete Schedule_keys d"
  shows "\<exists>ys vs. load_collection Schedule_from_dict h data key = Inr (h @ ys, vs)
           \<and> list_all2 (built_from (h @ ys) Schedule Schedule_keys) vs ds"
  by (rule load_collection_ok[OF assms, where P = "\<lambda>h. built_from h Schedule Schedule_keys"])
    (use Schedule_from_dict_complete in blast, erule built_from_append)








end
